theory Spec2Isabelle
  imports Main "HOL-Library.AList" "HOL-Library.Sublist"
begin

section \<open>Values, errors and strings\<close>

text \<open>
  The build-file interpreter of \<^verbatim>\<open>python-dsl/buck_parser/buck.py\<close> works on
  dynamically typed Python values. The values that reach the functions verified here are
  \<^verbatim>\<open>None\<close>, booleans, integers, native strings (\<^verbatim>\<open>str\<close>), Python 2 text
  strings (\<^verbatim>\<open>unicode\<close>, which are not instances of \<^verbatim>\<open>str\<close>), lists and
  dictionaries. A Python dictionary whose order can be observed is an association list in
  insertion order: \<^verbatim>\<open>d[k] = v\<close> is \<^const>\<open>AList.update\<close>, which overwrites in
  place or appends, and \<^verbatim>\<open>d.get(k)\<close> is \<^const>\<open>map_of\<close>.
\<close>

datatype pyval =
    VNone
  | VBool bool
  | VInt int
  | VStr string
  | VUnicode string
  | VList "pyval list"
  | VDict "(string \<times> pyval) list"

text \<open>Every exception class the modelled functions raise, with its message.\<close>

datatype error =
    ValueError string
  | KeyError string
  | AssertionError string
  | AttributeError string
  | BuildFileFailError string
  | WatchmanError string

fun error_message :: "error \<Rightarrow> string" where
  "error_message (ValueError m) = m"
| "error_message (KeyError m) = m"
| "error_message (AssertionError m) = m"
| "error_message (AttributeError m) = m"
| "error_message (BuildFileFailError m) = m"
| "error_message (WatchmanError m) = m"

text \<open>
  \<^verbatim>\<open>str(e)\<close> of an exception: its message, except that a \<^verbatim>\<open>KeyError\<close>
  gives the \<^verbatim>\<open>repr\<close> of its message, which is the argument \<open>repr_of\<close>.
\<close>

fun exception_str :: "(string \<Rightarrow> string) \<Rightarrow> error \<Rightarrow> string" where
  "exception_str repr_of (KeyError m) = repr_of m"
| "exception_str repr_of e = error_message e"

text \<open>
  \<^verbatim>\<open>isinstance(v, string_types)\<close>: \<^verbatim>\<open>str\<close> under Python 3, and also
  \<^verbatim>\<open>unicode\<close> under Python 2. \<open>str_text\<close> is the text of such a value, which
  is what a dictionary uses as the key.
\<close>

fun string_types :: "pyval \<Rightarrow> bool" where
  "string_types (VStr _) = True"
| "string_types (VUnicode _) = True"
| "string_types _ = False"

fun str_text :: "pyval \<Rightarrow> string" where
  "str_text (VStr s) = s"
| "str_text (VUnicode s) = s"
| "str_text _ = []"

definition quote :: string where
  "quote = [CHR 0x27]"

text \<open>\<^verbatim>\<open>str.lower()\<close> on ASCII text: the letters A to Z move to a to z.\<close>

definition lower_char :: "char \<Rightarrow> char" where
  "lower_char c =
     (if 65 \<le> (of_char c :: nat) \<and> (of_char c :: nat) \<le> 90
      then char_of ((of_char c :: nat) + 32) else c)"

definition lower :: "string \<Rightarrow> string" where
  "lower s = map lower_char s"

text \<open>\<^verbatim>\<open>d.get(k, default)\<close> on a dictionary.\<close>

definition dict_get :: "(string \<times> 'v) list \<Rightarrow> string \<Rightarrow> 'v \<Rightarrow> 'v" where
  "dict_get d k dflt = (case map_of d k of None \<Rightarrow> dflt | Some v \<Rightarrow> v)"

section \<open>Host information\<close>

record HostInfoOs =
  is_linux :: bool
  is_macos :: bool
  is_windows :: bool
  is_freebsd :: bool
  is_unknown :: bool

record HostInfoArch =
  is_aarch64 :: bool
  is_arm :: bool
  is_armeb :: bool
  is_i386 :: bool
  is_mips :: bool
  is_mips64 :: bool
  is_mipsel :: bool
  is_mipsel64 :: bool
  is_powerpc :: bool
  is_ppc64 :: bool
  is_unknown_arch :: bool
  is_x86_64 :: bool

record HostInfo =
  os :: HostInfoOs
  arch :: HostInfoArch

definition supported_oses :: "(string \<times> string) list" where
  "supported_oses =
     [(''darwin'', ''macos''),
      (''windows'', ''windows''),
      (''linux'', ''linux''),
      (''freebsd'', ''freebsd'')]"

definition supported_archs :: "(string \<times> string) list" where
  "supported_archs =
     [(''aarch64'', ''aarch64''),
      (''arm'', ''arm''),
      (''armeb'', ''armeb''),
      (''i386'', ''i386''),
      (''mips'', ''mips''),
      (''mips64'', ''mips64''),
      (''mipsel'', ''mipsel''),
      (''mipsel64'', ''mipsel64''),
      (''powerpc'', ''powerpc''),
      (''ppc64'', ''ppc64''),
      (''unknown'', ''unknown''),
      (''x86_64'', ''x86_64''),
      (''amd64'', ''x86_64''),
      (''arm64'', ''aarch64'')]"

text \<open>
  \<^verbatim>\<open>host_info(platform_system, platform_machine)\<close>: the two arguments are the
  strings that the platform callables return. The field \<^verbatim>\<open>is_unknown\<close> of
  \<^verbatim>\<open>HostInfoArch\<close> is \<open>is_unknown_arch\<close> here, since the operating-system
  record has a field of the same name.
\<close>

definition host_info :: "string \<Rightarrow> string \<Rightarrow> HostInfo" where
  "host_info platform_system platform_machine =
     (let host_arch = dict_get supported_archs (lower platform_machine) ''unknown'';
          host_os = dict_get supported_oses (lower platform_system) ''unknown''
      in \<lparr> os = \<lparr> is_linux = (host_os = ''linux''),
                  is_macos = (host_os = ''macos''),
                  is_windows = (host_os = ''windows''),
                  is_freebsd = (host_os = ''freebsd''),
                  is_unknown = (host_os = ''unknown'') \<rparr>,
           arch = \<lparr> is_aarch64 = (host_arch = ''aarch64''),
                    is_arm = (host_arch = ''arm''),
                    is_armeb = (host_arch = ''armeb''),
                    is_i386 = (host_arch = ''i386''),
                    is_mips = (host_arch = ''mips''),
                    is_mips64 = (host_arch = ''mips64''),
                    is_mipsel = (host_arch = ''mipsel''),
                    is_mipsel64 = (host_arch = ''mipsel64''),
                    is_powerpc = (host_arch = ''powerpc''),
                    is_ppc64 = (host_arch = ''ppc64''),
                    is_unknown_arch = (host_arch = ''unknown''),
                    is_x86_64 = (host_arch = ''x86_64'') \<rparr> \<rparr>)"


section \<open>Execution contexts\<close>

text \<open>
  What \<^verbatim>\<open>sys.exc_info()\<close> gives for a diagnostic: the name of the exception
  class, the text of the exception, the entries of \<^verbatim>\<open>traceback.extract_tb\<close> and,
  for a \<^verbatim>\<open>SyntaxError\<close> only, its file name, line number, offset and text.
\<close>

record exc_info =
  exc_type :: string
  exc_value :: string
  exc_traceback :: "(string \<times> int \<times> string \<times> string) list"
  syntax_error :: "(pyval \<times> pyval \<times> pyval \<times> pyval) option"

record Diagnostic =
  message :: string
  level :: string
  source :: string
  exception :: "exc_info option"

record Attribute =
  default :: pyval
  mandatory :: bool

text \<open>
  A user-defined rule factory. The objects are mutable and shared, so a context holds
  them by reference (a natural number) and the processor keeps the store of factories.
  The reference \<^verbatim>\<open>build_env\<close> that a factory carries to the active context is
  not a field here: the call takes the context as an argument.
\<close>

record UserDefinedRule =
  label :: string
  buck_type :: "string option"
  name :: "string option"
  required_attrs :: "string list"
  optional_attrs :: "string list"
  attrs :: "(string \<times> Attribute) list"

type_synonym rule = "(string \<times> pyval) list"

text \<open>
  \<^verbatim>\<open>AbstractContext\<close> has the five accumulators; the two context classes extend
  it. The dictionaries \<^verbatim>\<open>used_configs\<close> (a \<^verbatim>\<open>defaultdict(dict)\<close>) and
  \<^verbatim>\<open>used_env_vars\<close> are maps, the sets are sets, and \<^verbatim>\<open>rules\<close> is a
  dictionary in insertion order.
\<close>

record AbstractContext =
  "includes" :: "string set"
  used_configs :: "string \<rightharpoonup> (string \<rightharpoonup> pyval)"
  used_env_vars :: "string \<rightharpoonup> pyval"
  diagnostics :: "Diagnostic list"
  user_rules :: "nat set"

record BuildFileContext = AbstractContext +
  globals :: "(string \<times> pyval) list"
  rules :: "(string \<times> rule) list"
  project_root :: string
  base_path :: string
  path :: string
  cell_name :: string
  dirname :: string
  allow_empty_globs :: bool
  ignore_paths :: "string list"
  watchman_client :: bool
  watchman_watch_root :: "string option"
  watchman_project_prefix :: "string option"
  sync_cookie_state :: nat
  watchman_glob_stat_results :: bool
  watchman_use_glob_generator :: bool
  implicit_package_symbols :: "(string \<times> pyval) list"

record IncludeContext = AbstractContext +
  cell_name :: string
  path :: string
  label :: string
  globals :: "(string \<times> pyval) list"

datatype build_env = BuildFile BuildFileContext | Include IncludeContext

text \<open>The two constructors: every accumulator starts empty.\<close>

definition BuildFileContext_init ::
  "string \<Rightarrow> string \<Rightarrow> string \<Rightarrow> string \<Rightarrow> string \<Rightarrow> bool \<Rightarrow> string list \<Rightarrow> bool
     \<Rightarrow> string option \<Rightarrow> string option \<Rightarrow> nat \<Rightarrow> bool \<Rightarrow> bool \<Rightarrow> (string \<times> pyval) list
     \<Rightarrow> BuildFileContext"
where
  "BuildFileContext_init project_root_arg base_path_arg path_arg dirname_arg cell_name_arg
      allow_empty_globs_arg ignore_paths_arg watchman_client_arg watchman_watch_root_arg
      watchman_project_prefix_arg sync_cookie_state_arg watchman_glob_stat_results_arg
      watchman_use_glob_generator_arg implicit_package_symbols_arg =
     \<lparr> includes = {}, used_configs = Map.empty, used_env_vars = Map.empty,
       diagnostics = [], user_rules = {},
       BuildFileContext.globals = [], rules = [],
       project_root = project_root_arg, base_path = base_path_arg,
       BuildFileContext.path = path_arg, BuildFileContext.cell_name = cell_name_arg,
       dirname = dirname_arg, allow_empty_globs = allow_empty_globs_arg,
       ignore_paths = ignore_paths_arg, watchman_client = watchman_client_arg,
       watchman_watch_root = watchman_watch_root_arg,
       watchman_project_prefix = watchman_project_prefix_arg,
       sync_cookie_state = sync_cookie_state_arg,
       watchman_glob_stat_results = watchman_glob_stat_results_arg,
       watchman_use_glob_generator = watchman_use_glob_generator_arg,
       implicit_package_symbols = implicit_package_symbols_arg \<rparr>"

definition IncludeContext_init :: "string \<Rightarrow> string \<Rightarrow> string \<Rightarrow> IncludeContext" where
  "IncludeContext_init cell_name_arg path_arg label_arg =
     \<lparr> includes = {}, used_configs = Map.empty, used_env_vars = Map.empty,
       diagnostics = [], user_rules = {},
       IncludeContext.cell_name = cell_name_arg, IncludeContext.path = path_arg,
       IncludeContext.label = label_arg, IncludeContext.globals = [] \<rparr>"

text \<open>
  \<^verbatim>\<open>AbstractContext.merge\<close>. The five statements run in order on \<open>self\<close>;
  \<^verbatim>\<open>dict.update\<close> replaces the value of a key that both dictionaries have.
\<close>

definition merge ::
  "'a AbstractContext_scheme \<Rightarrow> 'b AbstractContext_scheme \<Rightarrow> 'a AbstractContext_scheme"
where
  "merge self other =
     self\<lparr> includes := includes self \<union> includes other,
           diagnostics := diagnostics self @ diagnostics other,
           used_configs := used_configs self ++ used_configs other,
           used_env_vars := used_env_vars self ++ used_env_vars other,
           user_rules := user_rules self \<union> user_rules other \<rparr>"

section \<open>Recording a rule\<close>

text \<open>
  \<^verbatim>\<open>add_rule(rule, build_env)\<close>. The argument \<open>str_of\<close> is Python's
  \<^verbatim>\<open>str()\<close> of a value, used only to format messages. The function returns what
  the call raised, or \<open>()\<close>, together with the context as the call leaves it.
\<close>

definition add_rule ::
  "(pyval \<Rightarrow> string) \<Rightarrow> rule \<Rightarrow> build_env \<Rightarrow> (error + unit) \<times> build_env"
where
  "add_rule str_of rule env =
     (case env of
        Include _ \<Rightarrow>
          (case map_of rule ''buck.type'' of
             None \<Rightarrow> (Inl (KeyError ''buck.type''), env)
           | Some t \<Rightarrow>
               (Inl (AssertionError
                  (''Cannot use `'' @ str_of t @
                   ''()` at the top-level of an included file.'')), env))
      | BuildFile b \<Rightarrow>
          (case map_of rule ''name'' of
             None \<Rightarrow>
               (Inl (ValueError
                  (''rules must contain the field '' @ quote @ ''name'' @ quote @
                   ''.  Found '' @ str_of (VDict rule) @ ''.'')), env)
           | Some rule_name \<Rightarrow>
               if \<not> string_types rule_name then
                 (Inl (ValueError
                    (''rules '' @ quote @ ''name'' @ quote @
                     '' field must be a string.  Found '' @ str_of rule_name @ ''.'')), env)
               else
                 (case map_of (rules b) (str_text rule_name) of
                    Some existing \<Rightarrow>
                      (Inl (ValueError
                         (''Duplicate rule definition '' @ quote @ str_text rule_name @ quote @
                          '' found.  Found '' @ str_of (VDict rule) @ '' and '' @
                          str_of (VDict existing))), env)
                  | None \<Rightarrow>
                      (Inr (),
                       BuildFile (b\<lparr> rules :=
                         AList.update (str_text rule_name)
                           (AList.update ''buck.base_path'' (VStr (base_path b)) rule)
                           (rules b) \<rparr>)))))"

text \<open>
  The \<^verbatim>\<open>except\<close> branch of \<^verbatim>\<open>process_with_diagnostics\<close>: an exception that
  leaves the evaluation of a build file becomes a fatal diagnostic, of source
  \<^verbatim>\<open>watchman\<close> for a watcher error and \<^verbatim>\<open>parse\<close> for every other one.
\<close>

definition fatal_diagnostic :: "(string \<Rightarrow> string) \<Rightarrow> error \<Rightarrow> exc_info \<Rightarrow> Diagnostic" where
  "fatal_diagnostic repr_of e info =
     (case e of
        WatchmanError msg \<Rightarrow>
          \<lparr> message = msg, level = ''fatal'', source = ''watchman'', exception = Some info \<rparr>
      | _ \<Rightarrow>
          \<lparr> message = exception_str repr_of e, level = ''fatal'', source = ''parse'',
            exception = Some info \<rparr>)"

section \<open>Globbing\<close>

text \<open>
  \<^verbatim>\<open>_RECURSIVE_GLOB_PATTERN.match(pattern)\<close> for the expression
  \<^verbatim>\<open>^(\*/)*\*\*/\<close>: any number of leading \<^verbatim>\<open>*/\<close>, then \<^verbatim>\<open>**/\<close>.
\<close>

fun recursive_glob_match :: "string \<Rightarrow> bool" where
  "recursive_glob_match (a # b # rest) =
     (if a = CHR ''*'' \<and> b = CHR ''*'' \<and> take 1 rest = ''/'' then True
      else if a = CHR ''*'' \<and> b = CHR ''/'' then recursive_glob_match rest
      else False)"
| "recursive_glob_match _ = False"

text \<open>\<^verbatim>\<open>fail(message, attr)\<close> always raises; this is the exception it raises.\<close>

definition fail :: "string \<Rightarrow> string option \<Rightarrow> error" where
  "fail msg attr =
     BuildFileFailError
       ((case attr of None \<Rightarrow> [] | Some a \<Rightarrow> ''attribute '' @ a @ '': '') @ msg)"

text \<open>
  The two glob backends live in other modules and are arguments here.
  \<open>glob_watchman incl excludes include_dotfiles build_env\<close> is the watcher query,
  which reads its other arguments from the context and may return \<^verbatim>\<open>None\<close>;
  \<open>glob_internal incl excludes ignore_paths include_dotfiles search_base
  project_root\<close> is the walk of the file system. Both may raise. Their results are lists
  of native strings, on which the re-encoding of the watcher's results does nothing.
  The argument \<^verbatim>\<open>includes\<close> of the source is \<open>incl\<close>, since \<open>includes\<close>
  is the field of the contexts.

  \<open>glob_results\<close> is the part of \<^verbatim>\<open>glob\<close> that computes \<^verbatim>\<open>results\<close>.
\<close>

type_synonym watchman_backend =
  "string list \<Rightarrow> string list \<Rightarrow> bool \<Rightarrow> BuildFileContext \<Rightarrow> error + string list option"

type_synonym internal_backend =
  "string list \<Rightarrow> string list \<Rightarrow> string list \<Rightarrow> bool \<Rightarrow> string \<Rightarrow> string
     \<Rightarrow> error + string list"

definition glob_results ::
  "watchman_backend \<Rightarrow> internal_backend \<Rightarrow> string list \<Rightarrow> string list \<Rightarrow> bool
     \<Rightarrow> BuildFileContext \<Rightarrow> string \<Rightarrow> error + string list"
where
  "glob_results glob_watchman glob_internal incl excludes include_dotfiles b search_base =
     (case (if incl = [] then Inr (Some [])
            else if watchman_client b
            then glob_watchman incl excludes include_dotfiles b
            else Inr None) of
        Inl e \<Rightarrow> Inl e
      | Inr (Some results) \<Rightarrow> Inr results
      | Inr None \<Rightarrow>
          glob_internal incl excludes (ignore_paths b) include_dotfiles search_base
            (project_root b))"

text \<open>
  The message of the last assertion of \<^verbatim>\<open>glob\<close>: the format string with
  the three arguments put in by \<^verbatim>\<open>str.format\<close>.
\<close>

definition no_results_message ::
  "(pyval \<Rightarrow> string) \<Rightarrow> string list \<Rightarrow> string list \<Rightarrow> bool \<Rightarrow> string"
where
  "no_results_message str_of incl excludes include_dotfiles =
     ''glob(includes='' @ str_of (VList (map VStr incl)) @
     '', excludes='' @ str_of (VList (map VStr excludes)) @
     '', include_dotfiles='' @ str_of (VBool include_dotfiles) @
     '') returned no results.  (allow_empty_globs is set to false in the Buck '' @
     ''configuration)''"

definition glob ::
  "watchman_backend \<Rightarrow> internal_backend \<Rightarrow> (pyval \<Rightarrow> string) \<Rightarrow> string list
     \<Rightarrow> string list option \<Rightarrow> bool \<Rightarrow> build_env option \<Rightarrow> string option
     \<Rightarrow> error + string list"
where
  "glob glob_watchman glob_internal str_of incl excludes_arg include_dotfiles env
      search_base_arg =
     (let excludes = (case excludes_arg of None \<Rightarrow> [] | Some e \<Rightarrow> e) in
      case env of
        Some (BuildFile b) \<Rightarrow>
          (let search_base = (case search_base_arg of None \<Rightarrow> dirname b | Some sb \<Rightarrow> sb) in
           if dirname b = project_root b \<and> list_ex recursive_glob_match incl then
             Inl (fail ''Recursive globs are prohibited at top-level directory'' None)
           else
             (case glob_results glob_watchman glob_internal incl excludes include_dotfiles
                     b search_base of
                Inl e \<Rightarrow> Inl e
              | Inr results \<Rightarrow>
                  if allow_empty_globs b \<or> results \<noteq> [] then Inr results
                  else
                    Inl (AssertionError
                      (no_results_message str_of incl excludes include_dotfiles))))
      | _ \<Rightarrow>
          Inl (AssertionError ''Cannot use `glob()` at the top-level of an included file.''))"

section \<open>User-defined rules\<close>

text \<open>
  \<^verbatim>\<open>VALID_IDENTIFIER_NAMES.match(name)\<close> for \<^verbatim>\<open>^[a-zA-Z_][a-zA-Z0-9_]*$\<close>.
  In Python, \<^verbatim>\<open>$\<close> also matches just before a newline that ends the string.
\<close>

definition ident_start :: "char \<Rightarrow> bool" where
  "ident_start c =
     (let n = (of_char c :: nat) in (65 \<le> n \<and> n \<le> 90) \<or> (97 \<le> n \<and> n \<le> 122) \<or> n = 95)"

definition ident_char :: "char \<Rightarrow> bool" where
  "ident_char c = (ident_start c \<or> (48 \<le> (of_char c :: nat) \<and> (of_char c :: nat) \<le> 57))"

definition valid_identifier :: "string \<Rightarrow> bool" where
  "valid_identifier s =
     (case s of
        [] \<Rightarrow> False
      | c # cs \<Rightarrow>
          ident_start c \<and>
          (list_all ident_char cs \<or>
           (cs \<noteq> [] \<and> last cs = CHR 0x0A \<and> list_all ident_char (butlast cs))))"

text \<open>
  The implicit attribute tables of the generated module \<^verbatim>\<open>generated_rules\<close>, which
  is not part of this file: sets of names, here in the order in which they are iterated.
\<close>

record generated_rules =
  IMPLICIT_REQUIRED_ATTRS :: "string list"
  IMPLICIT_OPTIONAL_ATTRS :: "string list"
  IMPLICIT_REQUIRED_TEST_ATTRS :: "string list"
  IMPLICIT_OPTIONAL_TEST_ATTRS :: "string list"

text \<open>
  \<^verbatim>\<open>_validate_attributes\<close>: the loop over the items of \<^verbatim>\<open>attrs\<close>, with
  \<^verbatim>\<open>modified_attrs\<close> as the accumulator. Every value is an \<open>Attribute\<close> by its
  type, so the third check of the source cannot fail here.
\<close>

fun validate_attributes ::
  "string list \<Rightarrow> string list \<Rightarrow> (string \<times> Attribute) list \<Rightarrow> (string \<times> Attribute) list
     \<Rightarrow> error + (string \<times> Attribute) list"
where
  "validate_attributes required optional [] modified_attrs = Inr modified_attrs"
| "validate_attributes required optional ((nm, attr) # rest) modified_attrs =
     (if nm \<in> set required \<or> nm \<in> set optional then
        Inl (ValueError (nm @ '' shadows a builtin attribute of the same name. Please remove it''))
      else if \<not> valid_identifier nm then
        Inl (ValueError (nm @ '' is not a valid python identifier. Please rename it''))
      else if take 1 nm \<noteq> ''_'' then
        validate_attributes required optional rest (AList.update nm attr modified_attrs)
      else validate_attributes required optional rest modified_attrs)"

definition UserDefinedRule_init ::
  "generated_rules \<Rightarrow> string \<Rightarrow> (string \<times> Attribute) list \<Rightarrow> bool \<Rightarrow> error + UserDefinedRule"
where
  "UserDefinedRule_init gen lbl attrs_arg test =
     (let required = (if test then IMPLICIT_REQUIRED_TEST_ATTRS gen
                      else IMPLICIT_REQUIRED_ATTRS gen);
          optional = (if test then IMPLICIT_OPTIONAL_TEST_ATTRS gen
                      else IMPLICIT_OPTIONAL_ATTRS gen)
      in case validate_attributes required optional attrs_arg [] of
           Inl e \<Rightarrow> Inl e
         | Inr modified \<Rightarrow>
             Inr \<lparr> UserDefinedRule.label = lbl, buck_type = None, name = None,
                   required_attrs = required, optional_attrs = optional,
                   attrs = modified \<rparr>)"

text \<open>\<^verbatim>\<open>self.all_attrs\<close>, which the constructor computes from the three collections.\<close>

definition all_attrs :: "UserDefinedRule \<Rightarrow> string set" where
  "all_attrs self = set (required_attrs self) \<union> set (optional_attrs self) \<union> set (map fst (attrs self))"

definition set_name :: "UserDefinedRule \<Rightarrow> string \<Rightarrow> error + UserDefinedRule" where
  "set_name self nm =
     (if \<not> valid_identifier nm then Inl (AssertionError ''invalid name for UDR'')
      else Inr (self\<lparr> buck_type := Some (UserDefinedRule.label self @ '':'' @ nm),
                     name := Some nm \<rparr>))"

text \<open>
  The three loops of \<^verbatim>\<open>UserDefinedRule.__call__\<close>, each over the collection in
  its iteration order, with the record \<^verbatim>\<open>rule\<close> as the accumulator.
  \<^verbatim>\<open>kwargs.get(param)\<close> is \<open>dict_get kwargs param VNone\<close>.
\<close>

definition missing_parameter :: "string \<Rightarrow> string \<Rightarrow> error" where
  "missing_parameter param bt =
     ValueError (''Mandatory parameter '' @ quote @ param @ quote @ '' for '' @ bt @
                 '' was missing'')"

fun required_loop ::
  "string \<Rightarrow> (string \<times> pyval) list \<Rightarrow> string list \<Rightarrow> rule \<Rightarrow> error + rule"
where
  "required_loop bt kwargs [] rule = Inr rule"
| "required_loop bt kwargs (param # rest) rule =
     (let v = dict_get kwargs param VNone in
      if v = VNone then Inl (missing_parameter param bt)
      else required_loop bt kwargs rest (AList.update param v rule))"

fun optional_loop :: "(string \<times> pyval) list \<Rightarrow> string list \<Rightarrow> rule \<Rightarrow> rule" where
  "optional_loop kwargs [] rule = rule"
| "optional_loop kwargs (param # rest) rule =
     (let v = dict_get kwargs param VNone in
      if v \<noteq> VNone then optional_loop kwargs rest (AList.update param v rule)
      else optional_loop kwargs rest rule)"

fun attrs_loop ::
  "string \<Rightarrow> (string \<times> pyval) list \<Rightarrow> (string \<times> Attribute) list \<Rightarrow> rule \<Rightarrow> error + rule"
where
  "attrs_loop bt kwargs [] rule = Inr rule"
| "attrs_loop bt kwargs ((k, v) # rest) rule =
     (let val = dict_get kwargs k VNone in
      if val = VNone then
        (if mandatory v then Inl (missing_parameter k bt)
         else attrs_loop bt kwargs rest (AList.update k (default v) rule))
      else attrs_loop bt kwargs rest (AList.update k val rule))"

text \<open>\<^verbatim>\<open>", ".join(xs)\<close>.\<close>

fun join_comma :: "string list \<Rightarrow> string" where
  "join_comma [] = []"
| "join_comma [x] = x"
| "join_comma (x # y # ys) = x @ '', '' @ join_comma (y # ys)"

text \<open>
  The part of \<^verbatim>\<open>__call__\<close> that checks the keyword arguments and builds the
  record. The set \<^verbatim>\<open>unexpected_kwargs\<close> is listed in the order of the keyword
  arguments.
\<close>

definition build_rule ::
  "UserDefinedRule \<Rightarrow> string \<Rightarrow> (string \<times> pyval) list \<Rightarrow> error + rule"
where
  "build_rule self bt kwargs =
     (let rule = [(''buck.type'', VStr bt)];
          unexpected_kwargs = filter (\<lambda>k. k \<notin> all_attrs self) (remdups (map fst kwargs))
      in if unexpected_kwargs \<noteq> [] then
           Inl (ValueError
             (''Unexpected extra parameter(s) '' @ quote @ join_comma unexpected_kwargs @ quote @
              '' provided for '' @ bt))
         else
           (case required_loop bt kwargs (required_attrs self) rule of
              Inl e \<Rightarrow> Inl e
            | Inr rule1 \<Rightarrow>
                attrs_loop bt kwargs (attrs self)
                  (optional_loop kwargs (optional_attrs self) rule1)))"

text \<open>
  \<^verbatim>\<open>UserDefinedRule.__call__(**kwargs)\<close>, with the context \<^verbatim>\<open>self.build_env\<close>
  as an argument (\<open>None\<close> before any context was bound). The result is what the call
  raised, or \<open>()\<close>, and the context as the call leaves it.
\<close>

definition UserDefinedRule_call ::
  "(pyval \<Rightarrow> string) \<Rightarrow> UserDefinedRule \<Rightarrow> build_env option \<Rightarrow> (string \<times> pyval) list
     \<Rightarrow> (error + unit) \<times> build_env option"
where
  "UserDefinedRule_call str_of self env kwargs =
     (case buck_type self of
        None \<Rightarrow>
          (Inl (AssertionError
             (''set_name() was never called for rule in '' @ UserDefinedRule.label self)), env)
      | Some bt \<Rightarrow>
          if bt = [] then
            (Inl (AssertionError
               (''set_name() was never called for rule in '' @ UserDefinedRule.label self)), env)
          else
            (case env of
               Some (BuildFile b) \<Rightarrow>
                 (case build_rule self bt kwargs of
                    Inl e \<Rightarrow> (Inl e, env)
                  | Inr rule \<Rightarrow>
                      (let (res, env') = add_rule str_of rule (BuildFile b)
                       in (res, Some env')))
             | _ \<Rightarrow>
                 (case name self of
                    None \<Rightarrow> (Inl (AttributeError ''name''), env)
                  | Some nm \<Rightarrow>
                      (Inl (ValueError
                         (nm @ '' may not be called from the top level of extension files'')),
                       env))))"

section \<open>The build file processor\<close>

text \<open>
  A module is the dictionary of its top-level bindings; a binding holds a reference to a
  rule factory or another value.
\<close>

datatype modval = Rule nat | Value pyval

type_synonym module = "(string \<times> modval) list"

record BuildInclude =
  cell_name :: string
  label :: string
  path :: string

text \<open>
  The fields of \<^verbatim>\<open>BuildFileProcessor\<close> that the functions below read or write.
  Python writes them with a leading underscore. \<open>rule_store\<close> holds the rule factory
  objects that the references of modules and contexts point to.
\<close>

record BuildFileProcessor =
  include_cache :: "string \<rightharpoonup> (IncludeContext \<times> module)"
  current_build_env :: "build_env option"
  processor_project_root :: string
  cell_roots :: "string \<rightharpoonup> string"
  configs :: "(string \<times> string) \<rightharpoonup> pyval"
  enable_user_defined_rules :: bool
  rule_store :: "nat \<rightharpoonup> UserDefinedRule"

text \<open>
  \<^verbatim>\<open>re.match(r"^([A-Za-z0-9_]*)//(.*)$", name)\<close>: the two groups, if the name
  matches. The first group is the longest run of word characters, which two slashes must
  follow; the second is the rest, which has no newline, except that \<^verbatim>\<open>$\<close> lets
  one newline end the name, outside the group.
\<close>

definition match_include_label :: "string \<Rightarrow> (string \<times> string) option" where
  "match_include_label nm =
     (let cell = takeWhile ident_char nm; rest = dropWhile ident_char nm in
      if take 2 rest \<noteq> ''//'' then None
      else
        (let p = drop 2 rest in
         if CHR 0x0A \<notin> set p then Some (cell, p)
         else if CHR 0x0A \<notin> set (butlast p) then Some (cell, butlast p)
         else None))"

text \<open>
  \<^verbatim>\<open>_resolve_include(name)\<close>. The arguments \<open>join\<close> and \<open>normpath\<close> are
  \<^verbatim>\<open>os.path.join\<close> and \<^verbatim>\<open>os.path.normpath\<close>, and \<open>repr_of\<close> formats
  the dictionary of cell roots for the message.
\<close>

definition resolve_include ::
  "(string \<Rightarrow> string \<Rightarrow> string) \<Rightarrow> (string \<Rightarrow> string) \<Rightarrow> ((string \<rightharpoonup> string) \<Rightarrow> string)
     \<Rightarrow> BuildFileProcessor \<Rightarrow> string \<Rightarrow> error + BuildInclude"
where
  "resolve_include join normpath repr_of self nm =
     (case match_include_label nm of
        None \<Rightarrow>
          Inl (ValueError
            (''include_defs argument '' @ nm @
             '' should be in the form of //path or cellname//path''))
      | Some (cell, relative_path) \<Rightarrow>
          if length cell > 0 then
            (case cell_roots self cell of
               None \<Rightarrow>
                 Inl (KeyError
                   (''include_defs argument '' @ nm @ '' references an unknown cell named '' @
                    cell @ '' known cells: '' @ repr_of (cell_roots self)))
             | Some cell_root \<Rightarrow>
                 Inr \<lparr> BuildInclude.cell_name = cell, BuildInclude.label = ''@'' @ nm,
                       BuildInclude.path = normpath (join cell_root relative_path) \<rparr>)
          else
            Inr \<lparr> BuildInclude.cell_name = cell, BuildInclude.label = nm,
                  BuildInclude.path =
                    normpath (join (processor_project_root self) relative_path) \<rparr>)"

text \<open>
  \<^verbatim>\<open>build_env.used_configs[section][field] = value\<close> on either kind of context;
  \<^verbatim>\<open>used_configs\<close> is a \<^verbatim>\<open>defaultdict(dict)\<close>, so a new section starts empty.
\<close>

definition record_config ::
  "string \<Rightarrow> string \<Rightarrow> pyval \<Rightarrow> 'a AbstractContext_scheme \<Rightarrow> 'a AbstractContext_scheme"
where
  "record_config section field v env =
     env\<lparr> used_configs := (used_configs env)
       (section \<mapsto> (case used_configs env section of None \<Rightarrow> Map.empty | Some d \<Rightarrow> d)
                    (field \<mapsto> v)) \<rparr>"

fun env_record_config :: "string \<Rightarrow> string \<Rightarrow> pyval \<Rightarrow> build_env \<Rightarrow> build_env" where
  "env_record_config section field v (BuildFile b) = BuildFile (record_config section field v b)"
| "env_record_config section field v (Include i) = Include (record_config section field v i)"

fun env_used_configs :: "build_env \<Rightarrow> string \<rightharpoonup> (string \<rightharpoonup> pyval)" where
  "env_used_configs (BuildFile b) = used_configs b"
| "env_used_configs (Include i) = used_configs i"

text \<open>
  \<^verbatim>\<open>self._configs.get((section, field))\<close>: the value that the orchestrator
  supplied for the key when the worker started, \<^verbatim>\<open>None\<close> for an unknown key.
\<close>

definition supplied_config :: "BuildFileProcessor \<Rightarrow> string \<Rightarrow> string \<Rightarrow> pyval" where
  "supplied_config self section field =
     (case configs self (section, field) of None \<Rightarrow> VNone | Some x \<Rightarrow> x)"

text \<open>
  \<^verbatim>\<open>_read_config(section, field, default)\<close>. \<open>encode\<close> is
  \<^verbatim>\<open>unicode.encode("utf-8")\<close>; a value that is neither \<^verbatim>\<open>None\<close>, a
  \<^verbatim>\<open>str\<close> nor a \<^verbatim>\<open>unicode\<close> has no method \<^verbatim>\<open>encode\<close>. The result is
  what the call raised or returned, and the processor as the call leaves it.
\<close>

definition read_config ::
  "(string \<Rightarrow> string) \<Rightarrow> BuildFileProcessor \<Rightarrow> string \<Rightarrow> string \<Rightarrow> pyval
     \<Rightarrow> (error + pyval) \<times> BuildFileProcessor"
where
  "read_config encode self section field dflt =
     (let build_env = current_build_env self;
          key = (section, field);
          v = supplied_config self section field;
          coerced =
            (case v of
               VNone \<Rightarrow> Inr (v, self)
             | VStr _ \<Rightarrow> Inr (v, self)
             | VUnicode u \<Rightarrow>
                 Inr (VStr (encode u),
                      self\<lparr> configs := (configs self)(key \<mapsto> VStr (encode u)) \<rparr>)
             | _ \<Rightarrow> Inl (AttributeError ''encode''))
      in case coerced of
           Inl e \<Rightarrow> (Inl e, self)
         | Inr (v', self') \<Rightarrow>
             (case build_env of
                None \<Rightarrow> (Inl (AttributeError ''used_configs''), self')
              | Some env \<Rightarrow>
                  (Inr (if v' = VNone then dflt else v'),
                   self'\<lparr> current_build_env :=
                     Some (env_record_config section field v' env) \<rparr>)))"

text \<open>
  The scan of the bindings of an included module in \<^verbatim>\<open>_process_include\<close>: every
  binding of a rule factory whose label is the label of the include is named after the
  binding and added to \<^verbatim>\<open>user_rules\<close>. The factory is an object, so naming it
  changes the store.
\<close>

fun name_rules ::
  "string \<Rightarrow> module \<Rightarrow> (nat \<rightharpoonup> UserDefinedRule) \<Rightarrow> nat set
     \<Rightarrow> (error + nat set) \<times> (nat \<rightharpoonup> UserDefinedRule)"
where
  "name_rules lbl [] store rs = (Inr rs, store)"
| "name_rules lbl ((k, Value _) # rest) store rs = name_rules lbl rest store rs"
| "name_rules lbl ((k, Rule r) # rest) store rs =
     (case store r of
        None \<Rightarrow> name_rules lbl rest store rs
      | Some v \<Rightarrow>
          if UserDefinedRule.label v = lbl then
            (case set_name v k of
               Inl e \<Rightarrow> (Inl e, store)
             | Inr v' \<Rightarrow> name_rules lbl rest (store(r \<mapsto> v')) (insert r rs))
          else name_rules lbl rest store rs)"

text \<open>
  \<^verbatim>\<open>_process_include(build_include, is_implicit_include)\<close>. The evaluation of the
  file, \<^verbatim>\<open>_process\<close>, is the argument \<open>process\<close>: it runs arbitrary code, so it
  takes the processor, the fresh context, the path and the flag, and returns what it
  raised or the context and the module, together with the processor as it leaves it.
\<close>

type_synonym process_fn =
  "BuildFileProcessor \<Rightarrow> IncludeContext \<Rightarrow> string \<Rightarrow> bool
     \<Rightarrow> (error + (IncludeContext \<times> module)) \<times> BuildFileProcessor"

definition process_include ::
  "process_fn \<Rightarrow> BuildFileProcessor \<Rightarrow> BuildInclude \<Rightarrow> bool
     \<Rightarrow> (error + (IncludeContext \<times> module)) \<times> BuildFileProcessor"
where
  "process_include process self build_include is_implicit_include =
     (case include_cache self (BuildInclude.path build_include) of
        Some cached \<Rightarrow> (Inr cached, self)
      | None \<Rightarrow>
          (case process self
                  (IncludeContext_init (BuildInclude.cell_name build_include)
                     (BuildInclude.path build_include) (BuildInclude.label build_include))
                  (BuildInclude.path build_include) is_implicit_include of
             (Inl e, self1) \<Rightarrow> (Inl e, self1)
           | (Inr (build_env, modl), self1) \<Rightarrow>
               (case (if enable_user_defined_rules self1
                      then name_rules (IncludeContext.label build_env) modl (rule_store self1)
                             (user_rules build_env)
                      else (Inr (user_rules build_env), rule_store self1)) of
                  (Inl e, store) \<Rightarrow> (Inl e, self1\<lparr> rule_store := store \<rparr>)
                | (Inr rs, store) \<Rightarrow>
                    (let env' = build_env\<lparr> user_rules := rs \<rparr> in
                     (Inr (env', modl),
                      self1\<lparr> rule_store := store,
                             include_cache := (include_cache self1)
                               (BuildInclude.path build_include \<mapsto> (env', modl)) \<rparr>)))))"

section \<open>Encoding the response\<close>

definition format_traceback :: "(string \<times> int \<times> string \<times> string) list \<Rightarrow> pyval" where
  "format_traceback tb =
     VList (map (\<lambda>(filename, line_number, function_name, text).
                   VDict [(''filename'', VStr filename),
                          (''line_number'', VInt line_number),
                          (''function_name'', VStr function_name),
                          (''text'', VStr text)]) tb)"

definition format_exception_info :: "exc_info \<Rightarrow> (string \<times> pyval) list" where
  "format_exception_info info =
     (let formatted = [(''type'', VStr (exc_type info)),
                       (''value'', VStr (exc_value info)),
                       (''traceback'', format_traceback (exc_traceback info))]
      in case syntax_error info of
           None \<Rightarrow> formatted
         | Some (filename, lineno, offset, text) \<Rightarrow>
             AList.update ''text'' text
               (AList.update ''offset'' offset
                 (AList.update ''lineno'' lineno
                   (AList.update ''filename'' filename formatted))))"

definition encode_diagnostic :: "Diagnostic \<Rightarrow> pyval" where
  "encode_diagnostic d =
     (let encoded = [(''message'', VStr (message d)), (''level'', VStr (level d)),
                     (''source'', VStr (source d))]
      in case exception d of
           None \<Rightarrow> VDict encoded
         | Some info \<Rightarrow>
             VDict (AList.update ''exception'' (VDict (format_exception_info info)) encoded))"

text \<open>
  The dictionary \<^verbatim>\<open>result\<close> of \<^verbatim>\<open>encode_result\<close> as it is when the encoder
  is first called, and as the \<^verbatim>\<open>except\<close> branch rebuilds it after the encoder
  raised \<open>e\<close>, with \<open>info\<close> for \<^verbatim>\<open>sys.exc_info()\<close>.
\<close>

definition first_result ::
  "(string \<times> pyval) list list \<Rightarrow> Diagnostic list \<Rightarrow> string option \<Rightarrow> (string \<times> pyval) list"
where
  "first_result vals diags profile =
     (let result = [(''values'',
            VList (map (\<lambda>val. VDict (filter (\<lambda>(k, v). v \<noteq> VNone) val)) vals))];
          result = (if diags \<noteq> []
                    then AList.update ''diagnostics'' (VList (map encode_diagnostic diags)) result
                    else result)
      in case profile of
           None \<Rightarrow> result
         | Some p \<Rightarrow> AList.update ''profile'' (VStr p) result)"

definition second_result ::
  "(string \<Rightarrow> string) \<Rightarrow> error \<Rightarrow> exc_info \<Rightarrow> (string \<times> pyval) list
     \<Rightarrow> (string \<times> pyval) list"
where
  "second_result repr_of e info result =
     (let result = AList.update ''values'' (VList []) result;
          result = (if map_of result ''diagnostics'' = None
                    then AList.update ''diagnostics'' (VList []) result else result);
          fatal = VDict [(''message'', VStr (exception_str repr_of e)), (''level'', VStr ''fatal''),
                         (''source'', VStr ''parse''),
                         (''exception'', VDict (format_exception_info info))]
      in AList.update ''diagnostics''
           (case map_of result ''diagnostics'' of
              Some (VList ds) \<Rightarrow> VList (ds @ [fatal])
            | _ \<Rightarrow> VList [fatal])
           result)"

text \<open>
  \<^verbatim>\<open>encode_result(values, diagnostics, profile)\<close>, with the JSON encoder of the
  module \<^verbatim>\<open>json_encoder\<close> as the argument \<open>json_encode\<close>, which may raise,
  \<open>exc_info_of\<close> for \<^verbatim>\<open>sys.exc_info()\<close> in the handler, and \<open>repr_of\<close>
  as in \<open>exception_str\<close>.
\<close>

definition encode_result ::
  "(pyval \<Rightarrow> error + string) \<Rightarrow> (error \<Rightarrow> exc_info) \<Rightarrow> (string \<Rightarrow> string)
     \<Rightarrow> (string \<times> pyval) list list \<Rightarrow> Diagnostic list \<Rightarrow> string option
     \<Rightarrow> error + string"
where
  "encode_result json_encode exc_info_of repr_of vals diags profile =
     (let result = first_result vals diags profile in
      case json_encode (VDict result) of
        Inr encoded \<Rightarrow> Inr encoded
      | Inl e \<Rightarrow> json_encode (VDict (second_result repr_of e (exc_info_of e) result)))"

section \<open>Example values\<close>

text \<open>
  The context of the build file \<^verbatim>\<open>/repo/pkg/BUCK\<close> of a project at
  \<^verbatim>\<open>/repo\<close>, as \<^verbatim>\<open>_process_build_file\<close> creates it when empty globs are
  not allowed and no watcher is configured.
\<close>

definition example_context :: BuildFileContext where
  "example_context =
     BuildFileContext_init ''/repo'' ''pkg'' ''/repo/pkg/BUCK'' ''/repo/pkg'' '''' False []
       False None None 0 False False []"

text \<open>The same context after \<^verbatim>\<open>java_library(name="a")\<close>.\<close>

definition example_context_a :: BuildFileContext where
  "example_context_a =
     example_context\<lparr> rules :=
       [(''a'', [(''buck.type'', VStr ''java_library''), (''name'', VStr ''a''),
                 (''buck.base_path'', VStr ''pkg'')])] \<rparr>"

text \<open>A stand-in for \<^verbatim>\<open>str()\<close> on lists of patterns and on booleans.\<close>

definition show_patterns :: "pyval \<Rightarrow> string" where
  "show_patterns v =
     (case v of
        VList xs \<Rightarrow> ''['' @ concat (map str_text xs) @ '']''
      | VBool b \<Rightarrow> (if b then ''True'' else ''False'')
      | _ \<Rightarrow> [])"

text \<open>
  Implicit attribute tables with one required and two optional attributes, and the rule
  factory that \<^verbatim>\<open>MyRule = rule(attrs = {"x": attr.string(default = "d")})\<close> in
  the extension \<^verbatim>\<open>//:r.bzl\<close> gives once it is named.
\<close>

definition example_tables :: generated_rules where
  "example_tables =
     \<lparr> IMPLICIT_REQUIRED_ATTRS = [''name''],
       IMPLICIT_OPTIONAL_ATTRS = [''labels'', ''licenses''],
       IMPLICIT_REQUIRED_TEST_ATTRS = [''name''],
       IMPLICIT_OPTIONAL_TEST_ATTRS = [''labels'', ''licenses'', ''contacts''] \<rparr>"

definition example_rule :: UserDefinedRule where
  "example_rule =
     \<lparr> UserDefinedRule.label = ''//:r.bzl'', buck_type = Some ''//:r.bzl:MyRule'',
       name = Some ''MyRule'', required_attrs = [''name''],
       optional_attrs = [''labels'', ''licenses''],
       attrs = [(''x'', \<lparr> default = VStr ''d'', mandatory = False \<rparr>)] \<rparr>"

text \<open>
  \<^verbatim>\<open>os.path.join\<close> of two components on a POSIX system, for the examples; their
  paths are in normal form, so \<open>id\<close> stands for \<^verbatim>\<open>os.path.normpath\<close> there.
\<close>

definition posix_join :: "string \<Rightarrow> string \<Rightarrow> string" where
  "posix_join a b =
     (if take 1 b = ''/'' then b
      else if a = [] \<or> (a \<noteq> [] \<and> last a = CHR ''/'') then a @ b
      else a @ ''/'' @ b)"

definition example_repr :: "(string \<rightharpoonup> string) \<Rightarrow> string" where
  "example_repr m = ''{...}''"

text \<open>
  A processor for the project at \<^verbatim>\<open>/repo\<close> with one more cell, started with the
  configuration \<^verbatim>\<open>{"a": {"b": "v"}}\<close>, while it evaluates the build file
  of the example context. \<open>example_process\<close> stands for the evaluation of an
  extension that binds \<^verbatim>\<open>greeting = "hi"\<close>.
\<close>

definition example_processor :: BuildFileProcessor where
  "example_processor =
     \<lparr> include_cache = Map.empty,
       current_build_env = Some (BuildFile example_context),
       processor_project_root = ''/repo'',
       cell_roots = [''cell'' \<mapsto> ''/cells/cell''],
       configs = [(''a'', ''b'') \<mapsto> VStr ''v''],
       enable_user_defined_rules = True,
       rule_store = Map.empty \<rparr>"

definition example_process :: process_fn where
  "example_process self env p is_implicit_include =
     (Inr (env, [(''greeting'', Value (VStr ''hi''))]), self)"

text \<open>
  The extension \<^verbatim>\<open>/repo/defs/x.bzl\<close> reached by two spellings of its label, and
  what its evaluation leaves in the include cache.
\<close>

definition example_include :: BuildInclude where
  "example_include =
     \<lparr> BuildInclude.cell_name = [], BuildInclude.label = ''//defs/x.bzl'',
       BuildInclude.path = ''/repo/defs/x.bzl'' \<rparr>"

definition example_include_again :: BuildInclude where
  "example_include_again =
     \<lparr> BuildInclude.cell_name = [], BuildInclude.label = ''//defs:x.bzl'',
       BuildInclude.path = ''/repo/defs/x.bzl'' \<rparr>"

definition example_cached :: "IncludeContext \<times> module" where
  "example_cached =
     (IncludeContext_init [] ''/repo/defs/x.bzl'' ''//defs/x.bzl'',
      [(''greeting'', Value (VStr ''hi''))])"

section \<open>Properties of the host information\<close>

lemma host_os_linux: "dict_get supported_oses ''linux'' ''unknown'' = ''linux''"
  by (simp add: dict_get_def supported_oses_def)

lemma host_arch_x86_64: "dict_get supported_archs ''x86_64'' ''unknown'' = ''x86_64''"
  by (simp add: dict_get_def supported_archs_def)

lemma host_arch_amd64: "dict_get supported_archs ''amd64'' ''unknown'' = ''x86_64''"
  by (simp add: dict_get_def supported_archs_def)

lemma host_arch_aarch64: "dict_get supported_archs ''aarch64'' ''unknown'' = ''aarch64''"
  by (simp add: dict_get_def supported_archs_def)

lemma host_arch_arm64: "dict_get supported_archs ''arm64'' ''unknown'' = ''aarch64''"
  by (simp add: dict_get_def supported_archs_def)

text \<open>
  Claim C8. When the platform reports the system Linux and the machine x86_64, in any
  letter case, \<open>host_info\<close> sets \<open>os.is_linux\<close>, clears every other flag of
  \<open>os\<close> and sets \<open>arch.is_x86_64\<close>. A machine reported as amd64 gives the
  architecture flags of x86_64, and one reported as arm64 those of aarch64.
\<close>

theorem host_info_linux_x86_64:
  "(lower sys = ''linux'' \<and> lower mach = ''x86_64'' \<longrightarrow>
      os (host_info sys mach) =
        \<lparr> is_linux = True, is_macos = False, is_windows = False,
          is_freebsd = False, is_unknown = False \<rparr>
      \<and> is_x86_64 (arch (host_info sys mach)))
   \<and> (lower m1 = ''amd64'' \<and> lower m2 = ''x86_64'' \<longrightarrow>
        arch (host_info s1 m1) = arch (host_info s2 m2))
   \<and> (lower m3 = ''arm64'' \<and> lower m4 = ''aarch64'' \<longrightarrow>
        arch (host_info s3 m3) = arch (host_info s4 m4))"
  by (simp add: host_info_def Let_def host_os_linux host_arch_x86_64 host_arch_amd64
      host_arch_aarch64 host_arch_arm64)

lemma lower_Linux: "lower ''Linux'' = ''linux''"
  by code_simp

lemma lower_X86_64: "lower ''X86_64'' = ''x86_64''"
  by code_simp

lemma lower_AMD64: "lower ''AMD64'' = ''amd64''"
  by code_simp

lemma lower_arm64: "lower ''arm64'' = ''arm64''"
  by code_simp

lemma lower_aarch64: "lower ''aarch64'' = ''aarch64''"
  by code_simp

theorem host_info_linux_x86_64_witness:
  "os (host_info ''Linux'' ''X86_64'') =
      \<lparr> is_linux = True, is_macos = False, is_windows = False,
        is_freebsd = False, is_unknown = False \<rparr>
   \<and> is_x86_64 (arch (host_info ''Linux'' ''X86_64''))
   \<and> arch (host_info ''Linux'' ''AMD64'') = arch (host_info ''Darwin'' ''X86_64'')
   \<and> arch (host_info ''Linux'' ''arm64'') = arch (host_info ''Linux'' ''aarch64'')"
  using host_info_linux_x86_64 [of "''Linux''" "''X86_64''" "''AMD64''" "''X86_64''"
      "''Linux''" "''Darwin''" "''arm64''" "''aarch64''" "''Linux''" "''Linux''"]
  by (simp add: lower_Linux lower_X86_64 lower_AMD64 lower_arm64 lower_aarch64)

section \<open>Properties of the contexts\<close>

text \<open>
  Claim C6. For every pair of contexts, \<open>merge dst src\<close> adds the includes of
  \<open>src\<close> to those of \<open>dst\<close>, appends the diagnostics of \<open>src\<close> in order,
  lets the entries of \<open>used_configs\<close> and \<open>used_env_vars\<close> of \<open>src\<close>
  replace those of \<open>dst\<close> under the same top-level key, adds the user rules of
  \<open>src\<close>, and leaves every other field of \<open>dst\<close> as it was; the rules of a
  build-file context are among those.
\<close>

theorem merge_fields:
  fixes dst :: "'a AbstractContext_scheme" and src :: "'b AbstractContext_scheme"
    and bdst :: "'c BuildFileContext_scheme"
  shows
  "includes (merge dst src) = includes dst \<union> includes src
   \<and> diagnostics (merge dst src) = diagnostics dst @ diagnostics src
   \<and> used_configs (merge dst src) = used_configs dst ++ used_configs src
   \<and> used_configs (merge dst src) s =
       (case used_configs src s of None \<Rightarrow> used_configs dst s | Some d \<Rightarrow> Some d)
   \<and> used_env_vars (merge dst src) = used_env_vars dst ++ used_env_vars src
   \<and> used_env_vars (merge dst src) n =
       (case used_env_vars src n of None \<Rightarrow> used_env_vars dst n | Some v \<Rightarrow> Some v)
   \<and> user_rules (merge dst src) = user_rules dst \<union> user_rules src
   \<and> AbstractContext.more (merge dst src) = AbstractContext.more dst
   \<and> rules (merge bdst src) = rules bdst"
  by (simp add: merge_def map_add_def)

section \<open>Properties of rule insertion\<close>

text \<open>
  Claim C1. For every build-file context and every rule record whose name is already a
  key of the rules of the context, \<open>add_rule\<close> raises an error whose message starts
  with \<^verbatim>\<open>Duplicate rule definition '<name>'\<close>, the context, and so its rules, is
  left as it was, and the error becomes a fatal diagnostic of source \<^verbatim>\<open>parse\<close>
  with that message.
\<close>

theorem add_rule_duplicate:
  assumes "map_of rule ''name'' = Some rule_name"
    and "string_types rule_name"
    and "str_text rule_name \<in> fst ` set (rules b)"
  shows "\<exists>m. add_rule str_of rule (BuildFile b) = (Inl (ValueError m), BuildFile b)
           \<and> prefix (''Duplicate rule definition '' @ quote @ str_text rule_name @ quote) m
           \<and> fatal_diagnostic repr_of (ValueError m) info =
               \<lparr> message = m, level = ''fatal'', source = ''parse'', exception = Some info \<rparr>"
proof -
  from assms(3) obtain existing where "map_of (rules b) (str_text rule_name) = Some existing"
    by (cases "map_of (rules b) (str_text rule_name)") (simp_all add: map_of_eq_None_iff)
  with assms(1,2) show ?thesis
    by (simp add: add_rule_def fatal_diagnostic_def)
qed

theorem add_rule_duplicate_witness:
  "\<exists>m. add_rule (\<lambda>v. ''?'') [(''buck.type'', VStr ''genrule''), (''name'', VStr ''a'')]
         (BuildFile example_context_a) =
        (Inl (ValueError m), BuildFile example_context_a)
       \<and> prefix (''Duplicate rule definition '' @ quote @ ''a'' @ quote) m
       \<and> fatal_diagnostic id (ValueError m) \<lparr> exc_type = ''ValueError'', exc_value = m,
              exc_traceback = [], syntax_error = None \<rparr> =
            \<lparr> message = m, level = ''fatal'', source = ''parse'',
              exception = Some \<lparr> exc_type = ''ValueError'', exc_value = m,
                exc_traceback = [], syntax_error = None \<rparr> \<rparr>"
proof -
  have 1: "map_of [(''buck.type'', VStr ''genrule''), (''name'', VStr ''a'')] ''name'' =
      Some (VStr ''a'')"
    by simp
  have 2: "string_types (VStr ''a'')" by simp
  have 3: "str_text (VStr ''a'') \<in> fst ` set (rules example_context_a)"
    by (simp add: example_context_a_def)
  from add_rule_duplicate [OF 1 2 3, of "\<lambda>v. ''?''"]
  obtain m where m: "add_rule (\<lambda>v. ''?'') [(''buck.type'', VStr ''genrule''), (''name'', VStr ''a'')]
         (BuildFile example_context_a) = (Inl (ValueError m), BuildFile example_context_a)"
    and p: "prefix (''Duplicate rule definition '' @ quote @ ''a'' @ quote) m"
    by auto
  show ?thesis
    using m p by (auto simp: fatal_diagnostic_def)
qed

section \<open>Properties of globbing\<close>

lemma sublist_mid: "sublist x (a @ x @ b)"
  unfolding sublist_def by blast

lemma no_results_message_names:
  "sublist (str_of (VList (map VStr incl))) (no_results_message str_of incl excludes dot)"
  "sublist (str_of (VList (map VStr excludes))) (no_results_message str_of incl excludes dot)"
  "sublist (str_of (VBool dot)) (no_results_message str_of incl excludes dot)"
proof -
  let ?m = "no_results_message str_of incl excludes dot"
  show "sublist (str_of (VList (map VStr incl))) ?m"
    unfolding no_results_message_def by (rule sublist_mid)
  have "?m = (''glob(includes='' @ str_of (VList (map VStr incl)) @ '', excludes='') @
      str_of (VList (map VStr excludes)) @
      ('', include_dotfiles='' @ str_of (VBool dot) @
       '') returned no results.  (allow_empty_globs is set to false in the Buck '' @
       ''configuration)'')"
    unfolding no_results_message_def by (simp only: append_assoc)
  then show "sublist (str_of (VList (map VStr excludes))) ?m"
    by (simp only: sublist_mid)
  have "?m = (''glob(includes='' @ str_of (VList (map VStr incl)) @ '', excludes='' @
      str_of (VList (map VStr excludes)) @ '', include_dotfiles='') @ str_of (VBool dot) @
      ('') returned no results.  (allow_empty_globs is set to false in the Buck '' @
       ''configuration)'')"
    unfolding no_results_message_def by (simp only: append_assoc)
  then show "sublist (str_of (VBool dot)) ?m"
    by (simp only: sublist_mid)
qed

lemma glob_results_no_includes: "glob_results gw gi [] ex dot b sb = Inr []"
  by (simp add: glob_results_def)

lemma glob_computed:
  assumes "\<not> (dirname b = project_root b \<and> list_ex recursive_glob_match incl)"
    and "glob_results gw gi incl (case ex of None \<Rightarrow> [] | Some e \<Rightarrow> e) dot b
           (case sb of None \<Rightarrow> dirname b | Some s \<Rightarrow> s) = Inr results"
  shows "glob gw gi str_of incl ex dot (Some (BuildFile b)) sb =
     (if allow_empty_globs b \<or> results \<noteq> [] then Inr results
      else Inl (AssertionError
        (no_results_message str_of incl (case ex of None \<Rightarrow> [] | Some e \<Rightarrow> e) dot)))"
  using assms by (auto simp add: glob_def Let_def)

text \<open>
  Claim C5. In a build-file context that does not allow empty globs, a glob whose
  computed result is empty raises an error whose message contains the include patterns,
  the exclude patterns and the flag \<^verbatim>\<open>include_dotfiles\<close>; an empty list of
  includes is such a case. When the context allows empty globs, the empty result is
  returned. The result is computed unless the build file is at the project root and an
  include pattern is a recursive glob, which is refused before.
\<close>

theorem glob_empty_result:
  "(\<not> (dirname b = project_root b \<and> list_ex recursive_glob_match incl)
      \<and> glob_results gw gi incl (case ex of None \<Rightarrow> [] | Some e \<Rightarrow> e) dot b
           (case sb of None \<Rightarrow> dirname b | Some s \<Rightarrow> s) = Inr []
    \<longrightarrow>
      (\<not> allow_empty_globs b \<longrightarrow>
         (\<exists>m. glob gw gi str_of incl ex dot (Some (BuildFile b)) sb = Inl (AssertionError m)
            \<and> sublist (str_of (VList (map VStr incl))) m
            \<and> sublist (str_of (VList (map VStr (case ex of None \<Rightarrow> [] | Some e \<Rightarrow> e)))) m
            \<and> sublist (str_of (VBool dot)) m))
      \<and> (allow_empty_globs b \<longrightarrow>
           glob gw gi str_of incl ex dot (Some (BuildFile b)) sb = Inr []))
   \<and> (\<not> allow_empty_globs b' \<longrightarrow>
        (\<exists>m. glob gw' gi' str_of [] ex' dot' (Some (BuildFile b')) sb' = Inl (AssertionError m)
           \<and> sublist (str_of (VList [])) m
           \<and> sublist (str_of (VList (map VStr (case ex' of None \<Rightarrow> [] | Some e \<Rightarrow> e)))) m
           \<and> sublist (str_of (VBool dot')) m))
   \<and> (allow_empty_globs b' \<longrightarrow>
        glob gw' gi' str_of [] ex' dot' (Some (BuildFile b')) sb' = Inr [])"
proof (intro conjI impI)
  assume a: "\<not> (dirname b = project_root b \<and> list_ex recursive_glob_match incl)
      \<and> glob_results gw gi incl (case ex of None \<Rightarrow> [] | Some e \<Rightarrow> e) dot b
           (case sb of None \<Rightarrow> dirname b | Some s \<Rightarrow> s) = Inr []"
  then have g: "glob gw gi str_of incl ex dot (Some (BuildFile b)) sb =
     (if allow_empty_globs b then Inr []
      else Inl (AssertionError
        (no_results_message str_of incl (case ex of None \<Rightarrow> [] | Some e \<Rightarrow> e) dot)))"
    using glob_computed [of b incl gw gi ex dot sb "[]" str_of] by simp
  {
    assume "\<not> allow_empty_globs b"
    with g show "\<exists>m. glob gw gi str_of incl ex dot (Some (BuildFile b)) sb = Inl (AssertionError m)
            \<and> sublist (str_of (VList (map VStr incl))) m
            \<and> sublist (str_of (VList (map VStr (case ex of None \<Rightarrow> [] | Some e \<Rightarrow> e)))) m
            \<and> sublist (str_of (VBool dot)) m"
      by (simp add: no_results_message_names)
  }
  {
    assume "allow_empty_globs b"
    with g show "glob gw gi str_of incl ex dot (Some (BuildFile b)) sb = Inr []" by simp
  }
next
  have g: "glob gw' gi' str_of [] ex' dot' (Some (BuildFile b')) sb' =
     (if allow_empty_globs b' then Inr []
      else Inl (AssertionError
        (no_results_message str_of [] (case ex' of None \<Rightarrow> [] | Some e \<Rightarrow> e) dot')))"
    using glob_computed [of b' "[]" gw' gi' ex' dot' sb' "[]" str_of]
    by (simp add: glob_results_no_includes)
  {
    assume "\<not> allow_empty_globs b'"
    with g no_results_message_names [where str_of = str_of and incl = "[]" and dot = dot'
        and excludes = "case ex' of None \<Rightarrow> [] | Some e \<Rightarrow> e"]
    show "\<exists>m. glob gw' gi' str_of [] ex' dot' (Some (BuildFile b')) sb' = Inl (AssertionError m)
           \<and> sublist (str_of (VList [])) m
           \<and> sublist (str_of (VList (map VStr (case ex' of None \<Rightarrow> [] | Some e \<Rightarrow> e)))) m
           \<and> sublist (str_of (VBool dot')) m"
      by simp
  }
  {
    assume "allow_empty_globs b'"
    with g show "glob gw' gi' str_of [] ex' dot' (Some (BuildFile b')) sb' = Inr []" by simp
  }
qed

theorem glob_empty_result_witness:
  "(\<exists>m. glob (\<lambda>i e d b. Inr None) (\<lambda>i e g d s r. Inr []) show_patterns [''*.nope''] None False
          (Some (BuildFile example_context)) None = Inl (AssertionError m)
      \<and> sublist ''[*.nope]'' m \<and> sublist ''[]'' m \<and> sublist ''False'' m)
   \<and> glob (\<lambda>i e d b. Inr None) (\<lambda>i e g d s r. Inr []) show_patterns [''*.nope''] None False
        (Some (BuildFile (example_context\<lparr> allow_empty_globs := True \<rparr>))) None = Inr []
   \<and> (\<exists>m. glob (\<lambda>i e d b. Inr None) (\<lambda>i e g d s r. Inr [''x'']) show_patterns [] None False
          (Some (BuildFile example_context)) None = Inl (AssertionError m))
   \<and> glob (\<lambda>i e d b. Inr None) (\<lambda>i e g d s r. Inr [''x'']) show_patterns [] None False
        (Some (BuildFile (example_context\<lparr> allow_empty_globs := True \<rparr>))) None = Inr []"
proof -
  let ?gw = "\<lambda>(i::string list) (e::string list) (d::bool) (b::BuildFileContext).
               (Inr None :: error + string list option)"
  let ?gi = "\<lambda>(i::string list) (e::string list) (g::string list) (d::bool) (s::string)
               (r::string). (Inr [] :: error + string list)"
  let ?gx = "\<lambda>(i::string list) (e::string list) (g::string list) (d::bool) (s::string)
               (r::string). (Inr [''x''] :: error + string list)"
  let ?t = "example_context\<lparr> allow_empty_globs := True \<rparr>"
  have f: "\<not> allow_empty_globs example_context"
    by (simp add: example_context_def BuildFileContext_init_def)
  have t: "allow_empty_globs ?t" by simp
  have r1: "\<not> (dirname example_context = project_root example_context
               \<and> list_ex recursive_glob_match [''*.nope''])"
    by (simp add: example_context_def BuildFileContext_init_def)
  have r2: "\<not> (dirname ?t = project_root ?t \<and> list_ex recursive_glob_match [''*.nope''])"
    by (simp add: example_context_def BuildFileContext_init_def)
  have c1: "glob_results ?gw ?gi [''*.nope''] (case None of None \<Rightarrow> [] | Some e \<Rightarrow> e) False
      example_context (case None of None \<Rightarrow> dirname example_context | Some s \<Rightarrow> s) = Inr []"
    by (simp add: glob_results_def example_context_def BuildFileContext_init_def)
  have c2: "glob_results ?gw ?gi [''*.nope''] (case None of None \<Rightarrow> [] | Some e \<Rightarrow> e) False
      ?t (case None of None \<Rightarrow> dirname ?t | Some s \<Rightarrow> s) = Inr []"
    by (simp add: glob_results_def example_context_def BuildFileContext_init_def)
  note A = glob_empty_result [of example_context "[''*.nope'']" ?gw ?gi None False None
      show_patterns example_context ?gw ?gx None False None]
  note B = glob_empty_result [of ?t "[''*.nope'']" ?gw ?gi None False None
      show_patterns ?t ?gw ?gx None False None]
  from A f r1 c1 B t r2 c2 show ?thesis
    by (auto simp add: show_patterns_def)
qed

section \<open>Properties of user-defined rules\<close>

lemma dict_get_absent: "map_of d k = None \<Longrightarrow> dict_get d k dflt = dflt"
  by (simp add: dict_get_def)

lemma required_loop_Inr_iff:
  "(\<exists>r. required_loop bt kw ps rule = Inr r) \<longleftrightarrow> (\<forall>p\<in>set ps. dict_get kw p VNone \<noteq> VNone)"
  by (induction ps arbitrary: rule) (auto simp: Let_def)

lemma required_loop_Inl:
  "required_loop bt kw ps rule = Inl e \<Longrightarrow>
     \<exists>p\<in>set ps. e = missing_parameter p bt \<and> dict_get kw p VNone = VNone"
  by (induction ps arbitrary: rule) (auto simp: Let_def split: if_splits)

lemma required_loop_map_of:
  "required_loop bt kw ps rule = Inr r \<Longrightarrow>
     map_of r k = (if k \<in> set ps then Some (dict_get kw k VNone) else map_of rule k)"
proof (induction ps arbitrary: rule)
  case Nil
  then show ?case by simp
next
  case (Cons p ps)
  then show ?case
    by (auto simp: Let_def update_conv split: if_splits)
qed

lemma optional_loop_map_of:
  "map_of (optional_loop kw ps rule) k =
     (if k \<in> set ps \<and> dict_get kw k VNone \<noteq> VNone then Some (dict_get kw k VNone)
      else map_of rule k)"
  by (induction ps arbitrary: rule) (auto simp: Let_def update_conv)

lemma attrs_loop_Inr_D:
  "attrs_loop bt kw as rule = Inr r \<Longrightarrow> (k, v) \<in> set as \<Longrightarrow> mandatory v \<Longrightarrow>
     dict_get kw k VNone \<noteq> VNone"
proof (induction as arbitrary: rule)
  case Nil
  then show ?case by simp
next
  case (Cons a as)
  obtain k' v' where a: "a = (k', v')" by (cases a)
  show ?case
  proof (cases "(k, v) = a")
    case True
    with Cons.prems a show ?thesis by (auto simp: Let_def split: if_splits)
  next
    case False
    with Cons.prems(2) have mem: "(k, v) \<in> set as" by simp
    from Cons.prems(1) a obtain rule' where "attrs_loop bt kw as rule' = Inr r"
      by (auto simp: Let_def split: if_splits)
    from Cons.IH [OF this mem Cons.prems(3)] show ?thesis .
  qed
qed

lemma attrs_loop_Inr_I:
  "(\<forall>(k, v)\<in>set as. mandatory v \<longrightarrow> dict_get kw k VNone \<noteq> VNone) \<Longrightarrow>
     \<exists>r. attrs_loop bt kw as rule = Inr r"
proof (induction as arbitrary: rule)
  case Nil
  then show ?case by simp
next
  case (Cons a as)
  obtain k' v' where a: "a = (k', v')" by (cases a)
  from Cons.prems have rest: "\<forall>(k, v)\<in>set as. mandatory v \<longrightarrow> dict_get kw k VNone \<noteq> VNone"
    by simp
  from Cons.prems a have here: "mandatory v' \<longrightarrow> dict_get kw k' VNone \<noteq> VNone"
    by simp
  show ?case
    using Cons.IH [OF rest] here a by (simp add: Let_def)
qed

lemma attrs_loop_Inl:
  "attrs_loop bt kw as rule = Inl e \<Longrightarrow>
     \<exists>(k, v)\<in>set as. e = missing_parameter k bt \<and> mandatory v \<and> dict_get kw k VNone = VNone"
proof (induction as arbitrary: rule)
  case Nil
  then show ?case by simp
next
  case (Cons a as)
  obtain k' v' where a: "a = (k', v')" by (cases a)
  show ?case
  proof (cases "dict_get kw k' VNone = VNone \<and> mandatory v'")
    case True
    with Cons.prems a show ?thesis by (simp add: Let_def)
  next
    case False
    with Cons.prems a obtain rule' where "attrs_loop bt kw as rule' = Inl e"
      by (auto simp: Let_def split: if_splits)
    from Cons.IH [OF this] show ?thesis by auto
  qed
qed

lemma attrs_loop_map_of:
  "distinct (map fst as) \<Longrightarrow> attrs_loop bt kw as rule = Inr r \<Longrightarrow>
     map_of r k =
       (case map_of as k of
          None \<Rightarrow> map_of rule k
        | Some v \<Rightarrow> Some (if dict_get kw k VNone = VNone then default v
                          else dict_get kw k VNone))"
proof (induction as arbitrary: rule)
  case Nil
  then show ?case by simp
next
  case (Cons a as)
  obtain k' v' where a: "a = (k', v')" by (cases a)
  from Cons.prems(1) a have d: "distinct (map fst as)" and nin: "k' \<notin> fst ` set as"
    by auto
  from nin have none: "map_of as k' = None"
    by (simp add: map_of_eq_None_iff)
  show ?case
    using Cons.prems(2) a none Cons.IH [OF d]
    by (auto simp: Let_def update_conv split: if_splits option.splits)
qed

lemma unexpected_kwargs_nil:
  "filter (\<lambda>k. k \<notin> A) (remdups (map fst kw)) = [] \<longleftrightarrow> fst ` set kw \<subseteq> A"
  by (auto simp: filter_empty_conv)

lemma build_rule_expected:
  "fst ` set kw \<subseteq> all_attrs self \<Longrightarrow>
     build_rule self bt kw =
       (case required_loop bt kw (required_attrs self) [(''buck.type'', VStr bt)] of
          Inl e \<Rightarrow> Inl e
        | Inr rule1 \<Rightarrow>
            attrs_loop bt kw (attrs self) (optional_loop kw (optional_attrs self) rule1))"
  unfolding build_rule_def Let_def by (simp only: unexpected_kwargs_nil if_False simp_thms)

lemma build_rule_unexpected:
  "\<not> fst ` set kw \<subseteq> all_attrs self \<Longrightarrow>
     build_rule self bt kw =
       Inl (ValueError
         (''Unexpected extra parameter(s) '' @ quote @
          join_comma (filter (\<lambda>k. k \<notin> all_attrs self) (remdups (map fst kw))) @ quote @
          '' provided for '' @ bt))"
  unfolding build_rule_def Let_def by (simp only: unexpected_kwargs_nil if_True simp_thms)

lemma build_rule_Inr_D:
  assumes r: "build_rule self bt kw = Inr r"
  shows "fst ` set kw \<subseteq> all_attrs self"
    and "\<exists>r1. required_loop bt kw (required_attrs self) [(''buck.type'', VStr bt)] = Inr r1
           \<and> attrs_loop bt kw (attrs self) (optional_loop kw (optional_attrs self) r1) = Inr r"
proof -
  show sub: "fst ` set kw \<subseteq> all_attrs self"
  proof (rule ccontr)
    assume "\<not> fst ` set kw \<subseteq> all_attrs self"
    from build_rule_unexpected [OF this, of bt] r show False by simp
  qed
  show "\<exists>r1. required_loop bt kw (required_attrs self) [(''buck.type'', VStr bt)] = Inr r1
           \<and> attrs_loop bt kw (attrs self) (optional_loop kw (optional_attrs self) r1) = Inr r"
  proof (cases "required_loop bt kw (required_attrs self) [(''buck.type'', VStr bt)]")
    case (Inl e)
    with r build_rule_expected [OF sub, of bt] show ?thesis by simp
  next
    case (Inr r1)
    with r build_rule_expected [OF sub, of bt] show ?thesis by simp
  qed
qed

lemma build_rule_Inr_iff:
  "(\<exists>r. build_rule self bt kw = Inr r) \<longleftrightarrow>
     fst ` set kw \<subseteq> all_attrs self
     \<and> (\<forall>p\<in>set (required_attrs self). dict_get kw p VNone \<noteq> VNone)
     \<and> (\<forall>(k, v)\<in>set (attrs self). mandatory v \<longrightarrow> dict_get kw k VNone \<noteq> VNone)"
  (is "?L \<longleftrightarrow> ?S \<and> ?R \<and> ?M")
proof
  assume ?L
  then obtain r where r: "build_rule self bt kw = Inr r" ..
  from build_rule_Inr_D [OF r] obtain r1 where sub: ?S
    and r1: "required_loop bt kw (required_attrs self) [(''buck.type'', VStr bt)] = Inr r1"
    and r2: "attrs_loop bt kw (attrs self) (optional_loop kw (optional_attrs self) r1) = Inr r"
    by blast
  from r1 have "\<exists>r. required_loop bt kw (required_attrs self) [(''buck.type'', VStr bt)] = Inr r"
    by (rule exI)
  then have req: ?R
    by (rule required_loop_Inr_iff [THEN iffD1])
  have man: ?M
  proof (rule ballI)
    fix x assume x: "x \<in> set (attrs self)"
    obtain k v where kv: "x = (k, v)" by (cases x)
    have "mandatory v \<longrightarrow> dict_get kw k VNone \<noteq> VNone"
    proof
      assume "mandatory v"
      with x kv attrs_loop_Inr_D [OF r2, of k v] show "dict_get kw k VNone \<noteq> VNone"
        by simp
    qed
    with kv show "case x of (k, v) \<Rightarrow> mandatory v \<longrightarrow> dict_get kw k VNone \<noteq> VNone"
      by simp
  qed
  from sub req man show "?S \<and> ?R \<and> ?M" by (intro conjI)
next
  assume a: "?S \<and> ?R \<and> ?M"
  then have sub: ?S and req: ?R and man: ?M by simp_all
  from required_loop_Inr_iff [THEN iffD2, OF req]
  obtain r1 where r1: "required_loop bt kw (required_attrs self) [(''buck.type'', VStr bt)] = Inr r1"
    by (erule exE)
  from attrs_loop_Inr_I [OF man] obtain r where
    "attrs_loop bt kw (attrs self) (optional_loop kw (optional_attrs self) r1) = Inr r"
    by blast
  with r1 build_rule_expected [OF sub, of bt] show ?L by simp
qed

lemma build_rule_map_of:
  assumes "distinct (map fst (attrs self))" and "build_rule self bt kw = Inr r"
  shows "map_of r k =
     (case map_of (attrs self) k of
        Some v \<Rightarrow> Some (if dict_get kw k VNone = VNone then default v else dict_get kw k VNone)
      | None \<Rightarrow>
          if k \<in> set (optional_attrs self) \<and> dict_get kw k VNone \<noteq> VNone
          then Some (dict_get kw k VNone)
          else if k \<in> set (required_attrs self) then Some (dict_get kw k VNone)
          else if k = ''buck.type'' then Some (VStr bt) else None)"
proof -
  from build_rule_Inr_D(2) [OF assms(2)] obtain r1 where
    r1: "required_loop bt kw (required_attrs self) [(''buck.type'', VStr bt)] = Inr r1"
    and r2: "attrs_loop bt kw (attrs self) (optional_loop kw (optional_attrs self) r1) = Inr r"
    by blast
  have base: "map_of [(''buck.type'', VStr bt)] k =
      (if k = ''buck.type'' then Some (VStr bt) else None)"
    by simp
  show ?thesis
    unfolding attrs_loop_map_of [OF assms(1) r2] optional_loop_map_of
      required_loop_map_of [OF r1] base
    by (rule refl)
qed

lemma call_in_build_file:
  assumes "buck_type self = Some bt" and "bt \<noteq> []"
  shows "UserDefinedRule_call str_of self (Some (BuildFile b)) kw =
     (case build_rule self bt kw of
        Inl e \<Rightarrow> (Inl e, Some (BuildFile b))
      | Inr rule \<Rightarrow> (fst (add_rule str_of rule (BuildFile b)),
                     Some (snd (add_rule str_of rule (BuildFile b)))))"
  using assms by (simp add: UserDefinedRule_call_def split_beta split: sum.splits)

lemma add_rule_Inr_D:
  assumes "add_rule str_of rule (BuildFile b) = (Inr u, env')"
  shows "\<exists>nm. map_of rule ''name'' = Some nm \<and> string_types nm
           \<and> map_of (rules b) (str_text nm) = None
           \<and> env' = BuildFile (b\<lparr> rules := AList.update (str_text nm)
                 (AList.update ''buck.base_path'' (VStr (base_path b)) rule) (rules b) \<rparr>)"
  using assms
  by (auto simp: add_rule_def split: option.splits if_splits)

lemma add_rule_Inr_I:
  assumes "map_of rule ''name'' = Some nm" and "string_types nm"
    and "map_of (rules b) (str_text nm) = None"
  shows "add_rule str_of rule (BuildFile b) =
     (Inr (), BuildFile (b\<lparr> rules := AList.update (str_text nm)
        (AList.update ''buck.base_path'' (VStr (base_path b)) rule) (rules b) \<rparr>))"
  using assms by (simp add: add_rule_def)

lemma dict_get_VNone_absent:
  "map_of kw k = None \<Longrightarrow> dict_get kw k VNone = VNone"
  by (simp add: dict_get_def)

lemma build_rule_Inl:
  assumes "build_rule self bt kw = Inl e"
  shows "\<exists>m. e = ValueError m"
proof (cases "fst ` set kw \<subseteq> all_attrs self")
  case False
  from build_rule_unexpected [OF False, of bt] assms show ?thesis by simp
next
  case True
  note eq = build_rule_expected [OF True, of bt]
  show ?thesis
  proof (cases "required_loop bt kw (required_attrs self) [(''buck.type'', VStr bt)]")
    case (Inl e')
    with eq assms have "e' = e" by simp
    with required_loop_Inl [OF Inl] show ?thesis
      by (auto simp: missing_parameter_def)
  next
    case (Inr r1)
    with eq assms have
      "attrs_loop bt kw (attrs self) (optional_loop kw (optional_attrs self) r1) = Inl e"
      by simp
    from attrs_loop_Inl [OF this] show ?thesis
      by (auto simp: missing_parameter_def)
  qed
qed

lemma build_rule_fails:
  assumes "(\<exists>k\<in>fst ` set kw. k \<notin> all_attrs self)
     \<or> (\<exists>p\<in>set (required_attrs self). dict_get kw p VNone = VNone)
     \<or> (\<exists>(k, v)\<in>set (attrs self). dict_get kw k VNone = VNone \<and> mandatory v)"
  shows "\<exists>m. build_rule self bt kw = Inl (ValueError m)"
proof (cases "build_rule self bt kw")
  case (Inl e)
  with build_rule_Inl [OF Inl] show ?thesis by auto
next
  case (Inr r)
  then have "\<exists>r. build_rule self bt kw = Inr r" ..
  then have "fst ` set kw \<subseteq> all_attrs self
     \<and> (\<forall>p\<in>set (required_attrs self). dict_get kw p VNone \<noteq> VNone)
     \<and> (\<forall>(k, v)\<in>set (attrs self). mandatory v \<longrightarrow> dict_get kw k VNone \<noteq> VNone)"
    by (rule build_rule_Inr_iff [THEN iffD1])
  with assms show ?thesis by fastforce
qed

text \<open>
  Claim C4. A named rule factory is called in a build-file context; its reserved key
  \<^verbatim>\<open>buck.type\<close> is not one of its attributes and its explicit attributes have
  distinct names. A keyword argument outside the required, optional and explicit
  attributes, a required attribute that is absent, and a mandatory explicit attribute
  that is absent each make the call fail with a \<^verbatim>\<open>ValueError\<close>, the context
  unchanged. A call that succeeds has put one record into the rules of the context, whose
  \<^verbatim>\<open>buck.type\<close> is the \<^verbatim>\<open>buck_type\<close> of the factory and in which every
  absent explicit attribute has its default. The call does succeed when the three checks
  pass and the name is a string that no rule of the context has yet.
\<close>

theorem udr_call_checks:
  assumes bt: "buck_type self = Some bt" "bt \<noteq> []"
    and wf: "distinct (map fst (attrs self))" "''buck.type'' \<notin> all_attrs self"
      "''buck.base_path'' \<notin> fst ` set (attrs self)"
  shows
    "((\<exists>k\<in>fst ` set kwargs. k \<notin> all_attrs self)
        \<or> (\<exists>p\<in>set (required_attrs self). map_of kwargs p = None)
        \<or> (\<exists>(k, v)\<in>set (attrs self). map_of kwargs k = None \<and> mandatory v)
      \<longrightarrow> (\<exists>m. UserDefinedRule_call str_of self (Some (BuildFile b)) kwargs =
               (Inl (ValueError m), Some (BuildFile b))))
     \<and> (\<forall>env'. UserDefinedRule_call str_of self (Some (BuildFile b)) kwargs = (Inr (), env')
          \<longrightarrow> (\<exists>b' nm rule. env' = Some (BuildFile b')
                 \<and> rules b' = AList.update nm rule (rules b)
                 \<and> map_of (rules b') nm = Some rule
                 \<and> map_of rule ''buck.type'' = Some (VStr bt)
                 \<and> (\<forall>(k, v)\<in>set (attrs self).
                       map_of kwargs k = None \<longrightarrow> \<not> mandatory v \<and> map_of rule k = Some (default v))))
     \<and> (fst ` set kwargs \<subseteq> all_attrs self
          \<and> (\<forall>p\<in>set (required_attrs self). dict_get kwargs p VNone \<noteq> VNone)
          \<and> (\<forall>(k, v)\<in>set (attrs self). mandatory v \<longrightarrow> dict_get kwargs k VNone \<noteq> VNone)
          \<and> ''name'' \<in> set (required_attrs self) \<and> ''name'' \<notin> fst ` set (attrs self)
          \<and> string_types (dict_get kwargs ''name'' VNone)
          \<and> str_text (dict_get kwargs ''name'' VNone) \<notin> fst ` set (rules b)
        \<longrightarrow> (\<exists>env'. UserDefinedRule_call str_of self (Some (BuildFile b)) kwargs = (Inr (), env')))"
  (is "(?bad \<longrightarrow> ?fatal) \<and> ?emitted \<and> (?good \<longrightarrow> ?succeeds)")
proof (intro conjI)
  note call = call_in_build_file [OF bt, of str_of b kwargs]
  show "?bad \<longrightarrow> ?fatal"
  proof
    assume ?bad
    then have "(\<exists>k\<in>fst ` set kwargs. k \<notin> all_attrs self)
       \<or> (\<exists>p\<in>set (required_attrs self). dict_get kwargs p VNone = VNone)
       \<or> (\<exists>(k, v)\<in>set (attrs self). dict_get kwargs k VNone = VNone \<and> mandatory v)"
      by (fastforce simp: dict_get_VNone_absent)
    from build_rule_fails [OF this, of bt] obtain m where
      "build_rule self bt kwargs = Inl (ValueError m)" ..
    with call show ?fatal by simp
  qed
  show ?emitted
  proof (intro allI impI)
    fix env'
    assume ok: "UserDefinedRule_call str_of self (Some (BuildFile b)) kwargs = (Inr (), env')"
    with call obtain rule where rule: "build_rule self bt kwargs = Inr rule"
      by (cases "build_rule self bt kwargs") auto
    with call ok have "add_rule str_of rule (BuildFile b) =
        (Inr (), snd (add_rule str_of rule (BuildFile b)))"
      and env': "env' = Some (snd (add_rule str_of rule (BuildFile b)))"
      by (auto simp: prod_eq_iff)
    from add_rule_Inr_D [OF this(1)] obtain nm where
      nm: "map_of (rules b) (str_text nm) = None"
      and snd: "snd (add_rule str_of rule (BuildFile b)) =
        BuildFile (b\<lparr> rules := AList.update (str_text nm)
          (AList.update ''buck.base_path'' (VStr (base_path b)) rule) (rules b) \<rparr>)"
      by blast
    let ?rule = "AList.update ''buck.base_path'' (VStr (base_path b)) rule"
    let ?b = "b\<lparr> rules := AList.update (str_text nm) ?rule (rules b) \<rparr>"
    note content = build_rule_map_of [OF wf(1) rule]
    have nattr: "map_of (attrs self) ''buck.type'' = None"
      using wf(2) by (simp add: all_attrs_def map_of_eq_None_iff)
    have type: "map_of ?rule ''buck.type'' = Some (VStr bt)"
      using wf(2) nattr by (simp add: update_conv content all_attrs_def)
    have attrs: "\<forall>(k, v)\<in>set (attrs self).
        map_of kwargs k = None \<longrightarrow> \<not> mandatory v \<and> map_of ?rule k = Some (default v)"
    proof (intro ballI, clarify)
      fix k v
      assume kv: "(k, v) \<in> set (attrs self)" and none: "map_of kwargs k = None"
      from kv wf(1) have m: "map_of (attrs self) k = Some v" by simp
      from kv wf(3) have ne: "k \<noteq> ''buck.base_path''" by force
      have "\<exists>r. build_rule self bt kwargs = Inr r" using rule ..
      then have "fst ` set kwargs \<subseteq> all_attrs self
          \<and> (\<forall>p\<in>set (required_attrs self). dict_get kwargs p VNone \<noteq> VNone)
          \<and> (\<forall>(k, v)\<in>set (attrs self). mandatory v \<longrightarrow> dict_get kwargs k VNone \<noteq> VNone)"
        by (rule build_rule_Inr_iff [THEN iffD1])
      then have "\<forall>(k, v)\<in>set (attrs self). mandatory v \<longrightarrow> dict_get kwargs k VNone \<noteq> VNone"
        by simp
      with kv none have nm: "\<not> mandatory v"
        by (auto simp: dict_get_VNone_absent)
      from m ne none have "map_of ?rule k = Some (default v)"
        by (simp add: update_conv content dict_get_VNone_absent)
      with nm show "\<not> mandatory v \<and> map_of ?rule k = Some (default v)" ..
    qed
    have "env' = Some (BuildFile ?b)" using env' snd by simp
    moreover have "rules ?b = AList.update (str_text nm) ?rule (rules b)" by simp
    moreover have "map_of (rules ?b) (str_text nm) = Some ?rule" by (simp add: update_conv)
    ultimately show "\<exists>b' nm rule. env' = Some (BuildFile b')
                 \<and> rules b' = AList.update nm rule (rules b)
                 \<and> map_of (rules b') nm = Some rule
                 \<and> map_of rule ''buck.type'' = Some (VStr bt)
                 \<and> (\<forall>(k, v)\<in>set (attrs self).
                       map_of kwargs k = None \<longrightarrow> \<not> mandatory v \<and> map_of rule k = Some (default v))"
      using type attrs by blast
  qed
  show "?good \<longrightarrow> ?succeeds"
  proof
    assume good: ?good
    then have "fst ` set kwargs \<subseteq> all_attrs self
          \<and> (\<forall>p\<in>set (required_attrs self). dict_get kwargs p VNone \<noteq> VNone)
          \<and> (\<forall>(k, v)\<in>set (attrs self). mandatory v \<longrightarrow> dict_get kwargs k VNone \<noteq> VNone)"
      by simp
    then have "\<exists>r. build_rule self bt kwargs = Inr r"
      by (rule build_rule_Inr_iff [THEN iffD2])
    then obtain rule where rule: "build_rule self bt kwargs = Inr rule" ..
    note content = build_rule_map_of [OF wf(1) rule, of "''name''"]
    from good have na: "map_of (attrs self) ''name'' = None"
      by (simp add: map_of_eq_None_iff)
    from good na have 1: "map_of rule ''name'' = Some (dict_get kwargs ''name'' VNone)"
      by (simp add: content)
    from good have 2: "string_types (dict_get kwargs ''name'' VNone)" by simp
    from good have 3: "map_of (rules b) (str_text (dict_get kwargs ''name'' VNone)) = None"
      by (simp add: map_of_eq_None_iff)
    from add_rule_Inr_I [OF 1 2 3, of str_of] rule call show ?succeeds by simp
  qed
qed

lemma example_rule_constructed:
  "(case UserDefinedRule_init example_tables ''//:r.bzl''
           [(''x'', \<lparr> default = VStr ''d'', mandatory = False \<rparr>)] False of
      Inl e \<Rightarrow> Inl e
    | Inr r \<Rightarrow> set_name r ''MyRule'') = Inr example_rule"
  by (simp add: UserDefinedRule_init_def example_tables_def example_rule_def set_name_def
      valid_identifier_def ident_start_def ident_char_def Let_def)

lemma example_rule_call:
  "UserDefinedRule_call show_patterns example_rule (Some (BuildFile example_context))
     [(''name'', VStr ''n'')] =
   (Inr (), Some (BuildFile (example_context\<lparr> rules :=
      [(''n'', [(''buck.type'', VStr ''//:r.bzl:MyRule''), (''name'', VStr ''n''),
                (''x'', VStr ''d''), (''buck.base_path'', VStr ''pkg'')])] \<rparr>)))"
  by (simp add: UserDefinedRule_call_def build_rule_def all_attrs_def example_rule_def
      example_context_def BuildFileContext_init_def add_rule_def Let_def dict_get_def)

theorem udr_call_checks_witness:
  "(\<exists>m. UserDefinedRule_call show_patterns example_rule (Some (BuildFile example_context)) [] =
      (Inl (ValueError m), Some (BuildFile example_context)))
   \<and> (\<exists>b' nm rule.
        UserDefinedRule_call show_patterns example_rule (Some (BuildFile example_context))
          [(''name'', VStr ''n'')] = (Inr (), Some (BuildFile b'))
        \<and> rules b' = AList.update nm rule (rules example_context)
        \<and> map_of (rules b') nm = Some rule
        \<and> map_of rule ''buck.type'' = Some (VStr ''//:r.bzl:MyRule'')
        \<and> map_of rule ''x'' = Some (VStr ''d''))"
proof -
  have bt: "buck_type example_rule = Some ''//:r.bzl:MyRule''" "''//:r.bzl:MyRule'' \<noteq> []"
    by (simp_all add: example_rule_def)
  have wf: "distinct (map fst (attrs example_rule))"
    "''buck.type'' \<notin> all_attrs example_rule"
    "''buck.base_path'' \<notin> fst ` set (attrs example_rule)"
    by (simp_all add: example_rule_def all_attrs_def)
  note A = udr_call_checks [OF bt wf, of "[]" show_patterns example_context]
  note B = udr_call_checks [OF bt wf, of "[(''name'', VStr ''n'')]" show_patterns example_context]
  have bad: "\<exists>p\<in>set (required_attrs example_rule). map_of [] p = (None :: pyval option)"
    by (simp add: example_rule_def)
  from A bad have 1: "\<exists>m. UserDefinedRule_call show_patterns example_rule
      (Some (BuildFile example_context)) [] = (Inl (ValueError m), Some (BuildFile example_context))"
    by blast
  have good: "fst ` set [(''name'', VStr ''n'')] \<subseteq> all_attrs example_rule
      \<and> (\<forall>p\<in>set (required_attrs example_rule). dict_get [(''name'', VStr ''n'')] p VNone \<noteq> VNone)
      \<and> (\<forall>(k, v)\<in>set (attrs example_rule).
            mandatory v \<longrightarrow> dict_get [(''name'', VStr ''n'')] k VNone \<noteq> VNone)
      \<and> ''name'' \<in> set (required_attrs example_rule)
      \<and> ''name'' \<notin> fst ` set (attrs example_rule)
      \<and> string_types (dict_get [(''name'', VStr ''n'')] ''name'' VNone)
      \<and> str_text (dict_get [(''name'', VStr ''n'')] ''name'' VNone)
            \<notin> fst ` set (rules example_context)"
    by (simp add: example_rule_def all_attrs_def dict_get_def example_context_def
        BuildFileContext_init_def)
  from B good obtain env' where ok: "UserDefinedRule_call show_patterns example_rule
      (Some (BuildFile example_context)) [(''name'', VStr ''n'')] = (Inr (), env')"
    by blast
  with B obtain b' nm rule where e: "env' = Some (BuildFile b')"
    and r: "rules b' = AList.update nm rule (rules example_context)"
      "map_of (rules b') nm = Some rule"
      "map_of rule ''buck.type'' = Some (VStr ''//:r.bzl:MyRule'')"
    and d: "\<forall>(k, v)\<in>set (attrs example_rule).
         map_of [(''name'', VStr ''n'')] k = None \<longrightarrow>
         \<not> mandatory v \<and> map_of rule k = Some (default v)"
    by blast
  from d have "map_of rule ''x'' = Some (VStr ''d'')"
    by (simp add: example_rule_def)
  with ok e r 1 show ?thesis by blast
qed

lemma dict_get_delete:
  "map_of kw k = Some VNone \<Longrightarrow> dict_get (AList.delete k kw) p VNone = dict_get kw p VNone"
  by (simp add: dict_get_def delete_conv)

lemma required_loop_cong:
  "(\<And>p. dict_get kw' p VNone = dict_get kw p VNone) \<Longrightarrow>
     required_loop bt kw' ps rule = required_loop bt kw ps rule"
  by (induction ps arbitrary: rule) (simp_all add: Let_def)

lemma optional_loop_cong:
  "(\<And>p. dict_get kw' p VNone = dict_get kw p VNone) \<Longrightarrow>
     optional_loop kw' ps rule = optional_loop kw ps rule"
  by (induction ps arbitrary: rule) (simp_all add: Let_def)

lemma attrs_loop_cong:
  "(\<And>p. dict_get kw' p VNone = dict_get kw p VNone) \<Longrightarrow>
     attrs_loop bt kw' as rule = attrs_loop bt kw as rule"
proof (induction as arbitrary: rule)
  case Nil
  show ?case by simp
next
  case (Cons a as)
  obtain k v where a: "a = (k, v)" by (cases a)
  show ?case using Cons a by (simp add: Let_def)
qed

lemma keys_delete: "map fst (AList.delete k kw) = filter (\<lambda>x. x \<noteq> k) (map fst kw)"
  by (induction kw) (auto simp: AList.delete_eq)

lemma unexpected_delete:
  assumes "k \<in> A"
  shows "filter (\<lambda>x. x \<notin> A) (remdups (map fst (AList.delete k kw))) =
         filter (\<lambda>x. x \<notin> A) (remdups (map fst kw))"
proof -
  have "filter (\<lambda>x. x \<notin> A) (remdups (filter (\<lambda>x. x \<noteq> k) (map fst kw))) =
        filter (\<lambda>x. x \<notin> A \<and> x \<noteq> k) (remdups (map fst kw))"
    by (simp add: remdups_filter conj_commute)
  also have "\<dots> = filter (\<lambda>x. x \<notin> A) (remdups (map fst kw))"
    using assms by (intro filter_cong) auto
  finally show ?thesis by (simp only: keys_delete)
qed

lemma build_rule_delete_None:
  assumes "map_of kw k = Some VNone" and "k \<in> all_attrs self"
  shows "build_rule self bt (AList.delete k kw) = build_rule self bt kw"
proof -
  have g: "\<And>p. dict_get (AList.delete k kw) p VNone = dict_get kw p VNone"
    using assms(1) by (rule dict_get_delete)
  show ?thesis
    unfolding build_rule_def Let_def
    by (simp only: unexpected_delete [OF assms(2)] required_loop_cong [OF g]
        optional_loop_cong [OF g] attrs_loop_cong [OF g])
qed

text \<open>
  Claim C9. A keyword argument of a rule factory that is bound to \<^verbatim>\<open>None\<close> and
  names one of its attributes is treated as if it were absent: the call gives the same
  result and the same context as the call without it. So for a required attribute or a
  mandatory explicit attribute the call raises the error for a missing mandatory
  parameter; in a record that is built, an optional attribute is left out, and an
  explicit attribute that is not mandatory has its default.
\<close>

theorem none_kwarg_is_absent:
  assumes none: "map_of kwargs k = Some VNone" and known: "k \<in> all_attrs self"
  shows
    "UserDefinedRule_call str_of self env kwargs =
       UserDefinedRule_call str_of self env (AList.delete k kwargs)
     \<and> map_of (AList.delete k kwargs) k = None
     \<and> (buck_type self = Some bt \<and> bt \<noteq> [] \<and> fst ` set kwargs \<subseteq> all_attrs self
          \<and> (k \<in> set (required_attrs self) \<or> (\<exists>v. (k, v) \<in> set (attrs self) \<and> mandatory v))
        \<longrightarrow> (\<exists>p. UserDefinedRule_call str_of self (Some (BuildFile b)) kwargs =
               (Inl (missing_parameter p bt), Some (BuildFile b))))
     \<and> (\<forall>rule. distinct (map fst (attrs self)) \<and> build_rule self bt kwargs = Inr rule
          \<longrightarrow> (case map_of (attrs self) k of
                 Some v \<Rightarrow> \<not> mandatory v \<and> map_of rule k = Some (default v)
               | None \<Rightarrow> k \<in> set (optional_attrs self)
                         \<and> (k \<noteq> ''buck.type'' \<longrightarrow> map_of rule k = None)))"
  (is "?same \<and> ?gone \<and> (?must \<longrightarrow> ?missing) \<and> ?built")
proof (intro conjI)
  have get: "dict_get kwargs k VNone = VNone"
    using none by (simp add: dict_get_def)
  show ?same
    unfolding UserDefinedRule_call_def
    by (simp only: build_rule_delete_None [OF none known])
  show ?gone by (simp add: delete_conv)
  show "?must \<longrightarrow> ?missing"
  proof
    assume must: ?must
    then have bt: "buck_type self = Some bt" "bt \<noteq> []"
      and sub: "fst ` set kwargs \<subseteq> all_attrs self" by simp_all
    note eq = build_rule_expected [OF sub, of bt]
    have "\<exists>p. build_rule self bt kwargs = Inl (missing_parameter p bt)"
    proof (cases "required_loop bt kwargs (required_attrs self) [(''buck.type'', VStr bt)]")
      case (Inl e)
      from required_loop_Inl [OF Inl] eq Inl show ?thesis by auto
    next
      case (Inr r1)
      then have "\<exists>r. required_loop bt kwargs (required_attrs self) [(''buck.type'', VStr bt)] = Inr r" ..
      then have req: "\<forall>p\<in>set (required_attrs self). dict_get kwargs p VNone \<noteq> VNone"
        by (rule required_loop_Inr_iff [THEN iffD1])
      with get have "k \<notin> set (required_attrs self)" by auto
      with must obtain v where kv: "(k, v) \<in> set (attrs self)" and m: "mandatory v" by auto
      show ?thesis
      proof (cases "attrs_loop bt kwargs (attrs self)
                      (optional_loop kwargs (optional_attrs self) r1)")
        case (Inl e)
        from attrs_loop_Inl [OF Inl] eq Inr Inl show ?thesis by auto
      next
        case (Inr r)
        from attrs_loop_Inr_D [OF Inr kv m] get show ?thesis by simp
      qed
    qed
    then obtain p where "build_rule self bt kwargs = Inl (missing_parameter p bt)" ..
    with call_in_build_file [OF bt, of str_of b kwargs] show ?missing by auto
  qed
  show ?built
  proof (intro allI impI)
    fix rule
    assume a: "distinct (map fst (attrs self)) \<and> build_rule self bt kwargs = Inr rule"
    then have d: "distinct (map fst (attrs self))" and r: "build_rule self bt kwargs = Inr rule"
      by simp_all
    note content = build_rule_map_of [OF d r, of k]
    have "\<exists>r. build_rule self bt kwargs = Inr r" using r ..
    then have ok: "fst ` set kwargs \<subseteq> all_attrs self
          \<and> (\<forall>p\<in>set (required_attrs self). dict_get kwargs p VNone \<noteq> VNone)
          \<and> (\<forall>(k, v)\<in>set (attrs self). mandatory v \<longrightarrow> dict_get kwargs k VNone \<noteq> VNone)"
      by (rule build_rule_Inr_iff [THEN iffD1])
    with get have nreq: "k \<notin> set (required_attrs self)" by auto
    show "case map_of (attrs self) k of
            Some v \<Rightarrow> \<not> mandatory v \<and> map_of rule k = Some (default v)
          | None \<Rightarrow> k \<in> set (optional_attrs self)
                    \<and> (k \<noteq> ''buck.type'' \<longrightarrow> map_of rule k = None)"
    proof (cases "map_of (attrs self) k")
      case None
      then have "k \<notin> fst ` set (attrs self)" by (simp add: map_of_eq_None_iff)
      with known nreq have "k \<in> set (optional_attrs self)"
        by (auto simp: all_attrs_def)
      with None nreq get content show ?thesis by simp
    next
      case (Some v)
      then have "(k, v) \<in> set (attrs self)" by (rule map_of_SomeD)
      with ok get have "\<not> mandatory v" by auto
      with Some get content show ?thesis by simp
    qed
  qed
qed

theorem none_kwarg_is_absent_witness:
  "UserDefinedRule_call show_patterns example_rule (Some (BuildFile example_context))
     [(''name'', VStr ''n''), (''x'', VNone), (''labels'', VNone)] =
   UserDefinedRule_call show_patterns example_rule (Some (BuildFile example_context))
     [(''name'', VStr ''n''), (''labels'', VNone)]
   \<and> build_rule example_rule ''//:r.bzl:MyRule''
        [(''name'', VStr ''n''), (''x'', VNone), (''labels'', VNone)] =
      Inr [(''buck.type'', VStr ''//:r.bzl:MyRule''), (''name'', VStr ''n''), (''x'', VStr ''d'')]
   \<and> map_of [(''buck.type'', VStr ''//:r.bzl:MyRule''), (''name'', VStr ''n''),
        (''x'', VStr ''d'')] ''x'' = Some (VStr ''d'')
   \<and> map_of [(''buck.type'', VStr ''//:r.bzl:MyRule''), (''name'', VStr ''n''),
        (''x'', VStr ''d'')] ''labels'' = None
   \<and> (\<exists>p. UserDefinedRule_call show_patterns example_rule (Some (BuildFile example_context))
            [(''name'', VNone)] =
          (Inl (missing_parameter p ''//:r.bzl:MyRule''), Some (BuildFile example_context)))"
proof -
  let ?kw = "[(''name'', VStr ''n''), (''x'', VNone), (''labels'', VNone)]"
  let ?bt = "''//:r.bzl:MyRule''"
  have x: "map_of ?kw ''x'' = Some VNone" "''x'' \<in> all_attrs example_rule"
    by (simp_all add: example_rule_def all_attrs_def)
  have l: "map_of ?kw ''labels'' = Some VNone" "''labels'' \<in> all_attrs example_rule"
    by (simp_all add: example_rule_def all_attrs_def)
  have n: "map_of [(''name'', VNone)] ''name'' = Some VNone" "''name'' \<in> all_attrs example_rule"
    by (simp_all add: example_rule_def all_attrs_def)
  note X = none_kwarg_is_absent [OF x, of show_patterns "Some (BuildFile example_context)" ?bt
      example_context]
  note L = none_kwarg_is_absent [OF l, of show_patterns "Some (BuildFile example_context)" ?bt
      example_context]
  note N = none_kwarg_is_absent [OF n, of show_patterns "Some (BuildFile example_context)" ?bt
      example_context]
  have d: "distinct (map fst (attrs example_rule))"
    by (simp add: example_rule_def)
  have b: "build_rule example_rule ?bt ?kw =
      Inr [(''buck.type'', VStr ?bt), (''name'', VStr ''n''), (''x'', VStr ''d'')]"
    by (simp add: build_rule_def all_attrs_def example_rule_def Let_def dict_get_def)
  have must: "buck_type example_rule = Some ?bt \<and> ?bt \<noteq> []
      \<and> fst ` set [(''name'', VNone)] \<subseteq> all_attrs example_rule
      \<and> (''name'' \<in> set (required_attrs example_rule)
          \<or> (\<exists>v. (''name'', v) \<in> set (attrs example_rule) \<and> mandatory v))"
    by (simp add: example_rule_def all_attrs_def)
  from X have 1: "UserDefinedRule_call show_patterns example_rule
      (Some (BuildFile example_context)) ?kw =
    UserDefinedRule_call show_patterns example_rule (Some (BuildFile example_context))
      [(''name'', VStr ''n''), (''labels'', VNone)]"
    by (simp add: AList.delete_eq)
  from X d have 2: "\<forall>rule. build_rule example_rule ?bt ?kw = Inr rule
       \<longrightarrow> map_of rule ''x'' = Some (VStr ''d'')"
    by (simp add: example_rule_def)
  from L d have 3: "\<forall>rule. build_rule example_rule ?bt ?kw = Inr rule
       \<longrightarrow> map_of rule ''labels'' = None"
    by (simp add: example_rule_def)
  from N must have 4: "\<exists>p. UserDefinedRule_call show_patterns example_rule
       (Some (BuildFile example_context)) [(''name'', VNone)] =
     (Inl (missing_parameter p ?bt), Some (BuildFile example_context))"
    by blast
  from 2 3 b have 5: "map_of [(''buck.type'', VStr ?bt), (''name'', VStr ''n''),
        (''x'', VStr ''d'')] ''x'' = Some (VStr ''d'')
      \<and> map_of [(''buck.type'', VStr ?bt), (''name'', VStr ''n''), (''x'', VStr ''d'')]
            ''labels'' = None"
    by blast
  from 1 4 5 b show ?thesis by blast
qed

section \<open>Properties of the include resolver\<close>

lemma slash_not_ident: "\<not> ident_char CHR ''/''"
  by (simp add: ident_char_def ident_start_def Let_def)

lemma match_include_label_well_formed:
  assumes "list_all ident_char cell" and "CHR 0x0A \<notin> set rel"
  shows "match_include_label (cell @ ''//'' @ rel) = Some (cell, rel)"
proof -
  have c: "\<And>x. x \<in> set cell \<Longrightarrow> ident_char x"
    using assms(1) by (simp add: list_all_iff)
  have t: "takeWhile ident_char (cell @ ''//'' @ rel) = cell"
    using c by (simp add: takeWhile_append2 slash_not_ident)
  have d: "dropWhile ident_char (cell @ ''//'' @ rel) = ''//'' @ rel"
    using c by (simp add: dropWhile_append2 slash_not_ident)
  show ?thesis
    unfolding match_include_label_def t d Let_def using assms(2) by simp
qed

lemma resolve_include_matched:
  assumes "match_include_label nm = Some (cell, rel)"
  shows "resolve_include join normpath repr_of self nm =
     (if cell \<noteq> [] then
        (case cell_roots self cell of
           None \<Rightarrow>
             Inl (KeyError
               (''include_defs argument '' @ nm @ '' references an unknown cell named '' @
                cell @ '' known cells: '' @ repr_of (cell_roots self)))
         | Some cell_root \<Rightarrow>
             Inr \<lparr> BuildInclude.cell_name = cell, BuildInclude.label = ''@'' @ nm,
                   BuildInclude.path = normpath (join cell_root rel) \<rparr>)
      else
        Inr \<lparr> BuildInclude.cell_name = cell, BuildInclude.label = nm,
              BuildInclude.path = normpath (join (processor_project_root self) rel) \<rparr>)"
  using assms by (simp add: resolve_include_def)

text \<open>
  Claim C7, as the code has it. For every well-formed label, made of a cell part of word
  characters, two slashes and a path part without a newline, the resolver gives a
  \<open>BuildInclude\<close> whose path is the normalized join of the root with the path
  part, where the root is the project root for an empty cell part and the root of the
  cell otherwise. Its label is the input as it is when the cell part is empty, and the
  input after an \<^verbatim>\<open>@\<close> when the cell part names a known cell. An unknown cell
  raises a \<^verbatim>\<open>KeyError\<close>.
\<close>

theorem resolve_include_label_and_path:
  assumes "list_all ident_char cell" and "CHR 0x0A \<notin> set rel"
  shows
    "(cell = [] \<longrightarrow>
        resolve_include join normpath repr_of self (cell @ ''//'' @ rel) =
          Inr \<lparr> BuildInclude.cell_name = [], BuildInclude.label = cell @ ''//'' @ rel,
                BuildInclude.path = normpath (join (processor_project_root self) rel) \<rparr>)
     \<and> (cell \<noteq> [] \<longrightarrow>
          (case cell_roots self cell of
             Some cell_root \<Rightarrow>
               resolve_include join normpath repr_of self (cell @ ''//'' @ rel) =
                 Inr \<lparr> BuildInclude.cell_name = cell,
                       BuildInclude.label = ''@'' @ cell @ ''//'' @ rel,
                       BuildInclude.path = normpath (join cell_root rel) \<rparr>
           | None \<Rightarrow>
               (\<exists>m. resolve_include join normpath repr_of self (cell @ ''//'' @ rel) =
                      Inl (KeyError m))))"
proof -
  let ?nm = "cell @ ''//'' @ rel"
  note eq = resolve_include_matched [OF match_include_label_well_formed [OF assms],
      of join normpath repr_of self]
  show ?thesis
  proof (cases "cell = []")
    case True
    with eq show ?thesis by simp
  next
    case False
    show ?thesis
    proof (cases "cell_roots self cell")
      case None
      with False eq show ?thesis by simp
    next
      case (Some cell_root)
      with False eq show ?thesis by simp
    qed
  qed
qed

text \<open>
  The label of a cell-qualified include is not the input: \<^verbatim>\<open>cell//defs/x.bzl\<close>
  resolves to the label \<^verbatim>\<open>@cell//defs/x.bzl\<close>.
\<close>

theorem resolve_include_label_counterexample:
  "resolve_include posix_join id example_repr example_processor ''cell//defs/x.bzl'' =
     Inr \<lparr> BuildInclude.cell_name = ''cell'', BuildInclude.label = ''@cell//defs/x.bzl'',
           BuildInclude.path = ''/cells/cell/defs/x.bzl'' \<rparr>
   \<and> BuildInclude.label \<lparr> BuildInclude.cell_name = ''cell'',
        BuildInclude.label = ''@cell//defs/x.bzl'',
        BuildInclude.path = ''/cells/cell/defs/x.bzl'' \<rparr> \<noteq> ''cell//defs/x.bzl''"
  by (simp add: resolve_include_def match_include_label_def ident_char_def ident_start_def
      Let_def example_processor_def posix_join_def)

theorem resolve_include_label_and_path_witness:
  "resolve_include posix_join id example_repr example_processor ''//defs/x.bzl'' =
     Inr \<lparr> BuildInclude.cell_name = [], BuildInclude.label = ''//defs/x.bzl'',
           BuildInclude.path = ''/repo/defs/x.bzl'' \<rparr>
   \<and> resolve_include posix_join id example_repr example_processor ''cell//defs/x.bzl'' =
     Inr \<lparr> BuildInclude.cell_name = ''cell'', BuildInclude.label = ''@cell//defs/x.bzl'',
           BuildInclude.path = ''/cells/cell/defs/x.bzl'' \<rparr>
   \<and> (\<exists>m. resolve_include posix_join id example_repr example_processor ''other//defs/x.bzl'' =
          Inl (KeyError m))"
proof -
  have e: "list_all ident_char []" by simp
  have c: "list_all ident_char ''cell''"
    by (simp add: ident_char_def ident_start_def Let_def)
  have o: "list_all ident_char ''other''"
    by (simp add: ident_char_def ident_start_def Let_def)
  have r: "CHR 0x0A \<notin> set ''defs/x.bzl''" by simp
  from resolve_include_label_and_path [OF e r, of posix_join id example_repr example_processor]
    resolve_include_label_and_path [OF c r, of posix_join id example_repr example_processor]
    resolve_include_label_and_path [OF o r, of posix_join id example_repr example_processor]
  show ?thesis
    by (simp add: example_processor_def posix_join_def)
qed

section \<open>Properties of configuration reads\<close>

lemma env_used_configs_record:
  "env_used_configs (env_record_config section field v env) =
     (env_used_configs env)
       (section \<mapsto> (case env_used_configs env section of None \<Rightarrow> Map.empty | Some d \<Rightarrow> d)
                    (field \<mapsto> v))"
  by (cases env) (simp_all add: record_config_def)

text \<open>
  The coercion of \<^verbatim>\<open>_read_config\<close>: a supplied \<^verbatim>\<open>unicode\<close> value, which
  Python 2 reads from the configuration file, is recorded and returned as its UTF-8
  encoding, the same text as a \<^verbatim>\<open>str\<close>, and replaces the raw value in the
  configuration.
\<close>

lemma read_config_unicode:
  assumes "current_build_env self = Some env"
    and "supplied_config self section field = VUnicode u"
  shows "\<exists>self' env' d.
           read_config encode self section field dflt = (Inr (VStr (encode u)), self')
           \<and> current_build_env self' = Some env'
           \<and> env_used_configs env' section = Some d
           \<and> d field = Some (VStr (encode u))
           \<and> configs self' = (configs self)((section, field) \<mapsto> VStr (encode u))"
  using assms
  by (simp add: read_config_def Let_def env_used_configs_record)

text \<open>
  Claim C2. The configuration maps a key to a \<^verbatim>\<open>str\<close>, and an unknown key has
  no value (\<^verbatim>\<open>None\<close>). During the evaluation of a file, after every call
  \<open>read_config section field dflt\<close> the entry
  \<^verbatim>\<open>used_configs[section][field]\<close> of the active context is the value that was
  supplied for the key, \<^verbatim>\<open>None\<close> for an unknown key; the call returns that
  recorded value when it is present and the default when it is absent, and the
  configuration is as it was.
\<close>

theorem read_config_records:
  assumes "current_build_env self = Some env"
    and "supplied_config self section field = VNone
           \<or> (\<exists>t. supplied_config self section field = VStr t)"
  shows "\<exists>self' env' d.
           read_config encode self section field dflt =
             (Inr (if supplied_config self section field = VNone then dflt
                   else supplied_config self section field), self')
           \<and> current_build_env self' = Some env'
           \<and> env_used_configs env' section = Some d
           \<and> d field = Some (supplied_config self section field)
           \<and> configs self' = configs self"
  using assms(2)
proof
  assume n: "supplied_config self section field = VNone"
  with assms(1) show ?thesis
    by (simp add: read_config_def Let_def env_used_configs_record)
next
  assume "\<exists>t. supplied_config self section field = VStr t"
  then obtain t where t: "supplied_config self section field = VStr t" ..
  with assms(1) show ?thesis
    by (simp add: read_config_def Let_def env_used_configs_record)
qed

theorem read_config_records_witness:
  "(\<exists>self' env' d.
      read_config id example_processor ''a'' ''b'' (VStr ''d'') = (Inr (VStr ''v''), self')
      \<and> current_build_env self' = Some env'
      \<and> env_used_configs env' ''a'' = Some d \<and> d ''b'' = Some (VStr ''v'')
      \<and> configs self' = configs example_processor)
   \<and> (\<exists>self' env' d.
        read_config id example_processor ''a'' ''zz'' (VStr ''d'') = (Inr (VStr ''d''), self')
        \<and> current_build_env self' = Some env'
        \<and> env_used_configs env' ''a'' = Some d \<and> d ''zz'' = Some VNone
        \<and> configs self' = configs example_processor)"
proof -
  have e: "current_build_env example_processor = Some (BuildFile example_context)"
    by (simp add: example_processor_def)
  have b: "supplied_config example_processor ''a'' ''b'' = VStr ''v''"
    by (simp add: supplied_config_def example_processor_def)
  have z: "supplied_config example_processor ''a'' ''zz'' = VNone"
    by (simp add: supplied_config_def example_processor_def)
  from b have b': "supplied_config example_processor ''a'' ''b'' = VNone
      \<or> (\<exists>t. supplied_config example_processor ''a'' ''b'' = VStr t)"
    by simp
  from z have z': "supplied_config example_processor ''a'' ''zz'' = VNone
      \<or> (\<exists>t. supplied_config example_processor ''a'' ''zz'' = VStr t)"
    by simp
  from read_config_records [OF e b', of id "VStr ''d''"] b
  have 1: "\<exists>self' env' d.
      read_config id example_processor ''a'' ''b'' (VStr ''d'') = (Inr (VStr ''v''), self')
      \<and> current_build_env self' = Some env'
      \<and> env_used_configs env' ''a'' = Some d \<and> d ''b'' = Some (VStr ''v'')
      \<and> configs self' = configs example_processor"
    by simp
  from read_config_records [OF e z', of id "VStr ''d''"] z
  have 2: "\<exists>self' env' d.
        read_config id example_processor ''a'' ''zz'' (VStr ''d'') = (Inr (VStr ''d''), self')
        \<and> current_build_env self' = Some env'
        \<and> env_used_configs env' ''a'' = Some d \<and> d ''zz'' = Some VNone
        \<and> configs self' = configs example_processor"
    by simp
  from 1 2 show ?thesis by (intro conjI)
qed

section \<open>Properties of the include cache\<close>

lemma process_include_hit:
  "include_cache self (BuildInclude.path bi) = Some cached \<Longrightarrow>
     process_include process self bi imp = (Inr cached, self)"
  by (simp add: process_include_def)

lemma process_include_stores:
  assumes "process_include process self bi imp = (Inr r, self1)"
  shows "include_cache self1 (BuildInclude.path bi) = Some r"
proof (cases "include_cache self (BuildInclude.path bi)")
  case (Some cached)
  with assms show ?thesis by (simp add: process_include_def)
next
  case None
  with assms show ?thesis
    by (auto simp: process_include_def Let_def
        split: prod.splits sum.splits if_splits)
qed

lemma process_include_keeps:
  assumes keeps: "\<And>st env p i res st' q c.
      process st env p i = (res, st') \<Longrightarrow> include_cache st q = Some c \<Longrightarrow>
        include_cache st' q = Some c"
    and call: "process_include process self bi imp = (res, self1)"
    and entry: "include_cache self q = Some c"
  shows "include_cache self1 q = Some c"
proof (cases "include_cache self (BuildInclude.path bi)")
  case (Some cached)
  with call entry show ?thesis by (simp add: process_include_def)
next
  case None
  with entry have ne: "q \<noteq> BuildInclude.path bi" by auto
  obtain res0 st0 where p: "process self
      (IncludeContext_init (BuildInclude.cell_name bi) (BuildInclude.path bi)
         (BuildInclude.label bi)) (BuildInclude.path bi) imp = (res0, st0)"
    by (cases "process self
      (IncludeContext_init (BuildInclude.cell_name bi) (BuildInclude.path bi)
         (BuildInclude.label bi)) (BuildInclude.path bi) imp")
  from keeps [OF p entry] have k: "include_cache st0 q = Some c" .
  from call None p ne k show ?thesis
    by (auto simp: process_include_def Let_def
        split: prod.splits sum.splits if_splits)
qed

text \<open>
  Claim C3. A call of \<open>process_include\<close> for a path that is in the include cache
  returns the cached pair of context and module and leaves the processor as it was,
  whatever the evaluation function is, so the file is not evaluated again. A call that
  returns a pair has it in the cache under the path of the include, and every later call
  for an include of that path, on any processor that still has that entry, returns the
  same pair and changes nothing. The entry stays: \<open>process_include\<close> keeps every
  entry of the cache if the evaluation does.
\<close>

theorem process_include_cached:
  "(include_cache self (BuildInclude.path bi) = Some cached
      \<longrightarrow> process_include process self bi imp = (Inr cached, self))
   \<and> (process_include process self bi imp = (Inr r, self1)
        \<longrightarrow> include_cache self1 (BuildInclude.path bi) = Some r
          \<and> (\<forall>self2 process' bi' imp'.
                include_cache self2 (BuildInclude.path bi) = Some r
                \<and> BuildInclude.path bi' = BuildInclude.path bi
                \<longrightarrow> process_include process' self2 bi' imp' = (Inr r, self2)))
   \<and> ((\<forall>st env p i res st' q c.
          process st env p i = (res, st') \<and> include_cache st q = Some c
            \<longrightarrow> include_cache st' q = Some c)
        \<and> process_include process self bi imp = (res, self1)
        \<and> include_cache self q = Some c
      \<longrightarrow> include_cache self1 q = Some c)"
proof (intro conjI impI allI)
  assume "include_cache self (BuildInclude.path bi) = Some cached"
  then show "process_include process self bi imp = (Inr cached, self)"
    by (rule process_include_hit)
next
  assume "process_include process self bi imp = (Inr r, self1)"
  then show "include_cache self1 (BuildInclude.path bi) = Some r"
    by (rule process_include_stores)
next
  fix self2 :: BuildFileProcessor and process' :: process_fn and bi' :: BuildInclude
    and imp' :: bool
  assume "include_cache self2 (BuildInclude.path bi) = Some r
                \<and> BuildInclude.path bi' = BuildInclude.path bi"
  then have "include_cache self2 (BuildInclude.path bi') = Some r" by simp
  then show "process_include process' self2 bi' imp' = (Inr r, self2)"
    by (rule process_include_hit)
next
  assume a: "(\<forall>st env p i res st' q c.
          process st env p i = (res, st') \<and> include_cache st q = Some c
            \<longrightarrow> include_cache st' q = Some c)
        \<and> process_include process self bi imp = (res, self1)
        \<and> include_cache self q = Some c"
  then have keeps: "\<And>st env p i res st' q c.
      process st env p i = (res, st') \<Longrightarrow> include_cache st q = Some c \<Longrightarrow>
        include_cache st' q = Some c"
    by blast
  from a have call: "process_include process self bi imp = (res, self1)"
    and entry: "include_cache self q = Some c" by simp_all
  from process_include_keeps [of process, OF keeps call entry]
  show "include_cache self1 q = Some c" by simp
qed

lemma example_first_include:
  "process_include example_process example_processor example_include False =
     (Inr example_cached,
      example_processor\<lparr> include_cache := [''/repo/defs/x.bzl'' \<mapsto> example_cached] \<rparr>)"
  by (simp add: process_include_def example_process_def example_processor_def
      example_include_def example_cached_def IncludeContext_init_def Let_def)

theorem process_include_cached_witness:
  "process_include example_process example_processor example_include False =
     (Inr example_cached,
      example_processor\<lparr> include_cache := [''/repo/defs/x.bzl'' \<mapsto> example_cached] \<rparr>)
   \<and> process_include (\<lambda>st env p i. (Inl (ValueError ''evaluated again''), st))
        (example_processor\<lparr> include_cache := [''/repo/defs/x.bzl'' \<mapsto> example_cached] \<rparr>)
        example_include_again True =
     (Inr example_cached,
      example_processor\<lparr> include_cache := [''/repo/defs/x.bzl'' \<mapsto> example_cached] \<rparr>)
   \<and> include_cache (example_processor\<lparr> include_cache :=
         [''/repo/defs/x.bzl'' \<mapsto> example_cached] \<rparr>) ''/repo/defs/x.bzl'' =
       Some example_cached"
proof -
  let ?s1 = "example_processor\<lparr> include_cache := [''/repo/defs/x.bzl'' \<mapsto> example_cached] \<rparr>"
  let ?again = "(\<lambda>st env p i. (Inl (ValueError ''evaluated again''), st)) :: process_fn"
  note first = example_first_include
  have hit: "include_cache ?s1 (BuildInclude.path example_include) = Some example_cached"
    by (simp add: example_include_def)
  have same: "BuildInclude.path example_include_again = BuildInclude.path example_include"
    by (simp add: example_include_def example_include_again_def)
  have keeps: "\<forall>st env p i res st' q c.
      example_process st env p i = (res, st') \<and> include_cache st q = Some c
        \<longrightarrow> include_cache st' q = Some c"
    by (simp add: example_process_def)
  note T = process_include_cached [of example_processor example_include example_cached
      example_process False example_cached ?s1 "Inr example_cached" "''/repo/other.bzl''"
      example_cached]
  from T [THEN conjunct2, THEN conjunct1] first have "\<forall>self2 process' bi' imp'.
      include_cache self2 (BuildInclude.path example_include) = Some example_cached
      \<and> BuildInclude.path bi' = BuildInclude.path example_include
      \<longrightarrow> process_include process' self2 bi' imp' = (Inr example_cached, self2)"
    by blast
  with hit same have second:
    "process_include ?again ?s1 example_include_again True = (Inr example_cached, ?s1)"
    by blast
  note U = process_include_cached [of ?s1 example_include example_cached
      example_process False example_cached ?s1 "Inr example_cached"
      "BuildInclude.path example_include" example_cached]
  from U [THEN conjunct1] hit have third:
    "process_include example_process ?s1 example_include False = (Inr example_cached, ?s1)"
    by (rule mp)
  from keeps third hit have pre: "(\<forall>st env p i res st' q c.
      example_process st env p i = (res, st') \<and> include_cache st q = Some c
        \<longrightarrow> include_cache st' q = Some c)
    \<and> process_include example_process ?s1 example_include False = (Inr example_cached, ?s1)
    \<and> include_cache ?s1 (BuildInclude.path example_include) = Some example_cached"
    by (intro conjI)
  from U [THEN conjunct2, THEN conjunct2] pre
  have "include_cache ?s1 (BuildInclude.path example_include) = Some example_cached"
    by (rule mp)
  then have fourth: "include_cache ?s1 ''/repo/defs/x.bzl'' = Some example_cached"
    by (simp only: example_include_def BuildInclude.simps)
  from first second fourth show ?thesis by (intro conjI)
qed

section \<open>Properties of the encoded response\<close>

lemma first_result_values:
  "map_of (first_result vals diags profile) ''values'' =
     Some (VList (map (\<lambda>val. VDict (filter (\<lambda>(k, v). v \<noteq> VNone) val)) vals))"
  by (simp add: first_result_def Let_def update_conv split: option.splits)

lemma second_result_values:
  "map_of (second_result repr_of e info result) ''values'' = Some (VList [])"
  by (simp add: second_result_def Let_def update_conv)

text \<open>
  Claim C10. In the dictionary that \<open>encode_result\<close> hands to the encoder, the
  list under \<^verbatim>\<open>values\<close> has one dictionary for each given entry, with the items
  of that entry whose value is not \<^verbatim>\<open>None\<close> and no others; so no attribute of
  an emitted record or meta entry is \<^verbatim>\<open>None\<close>. When the encoder raises, the
  dictionary encoded instead has an empty list of values. These two are the only
  dictionaries that are encoded.
\<close>

theorem encode_result_drops_none:
  "(\<exists>es. map_of (first_result vals diags profile) ''values'' = Some (VList es)
      \<and> length es = length vals
      \<and> (\<forall>i<length vals. \<exists>d. es ! i = VDict d
            \<and> set d = {(k, v). (k, v) \<in> set (vals ! i) \<and> v \<noteq> VNone}
            \<and> VNone \<notin> snd ` set d))
   \<and> map_of (second_result repr_of e info (first_result vals diags profile)) ''values'' = Some (VList [])
   \<and> (encode_result json_encode exc_info_of repr_of vals diags profile =
         json_encode (VDict (first_result vals diags profile))
       \<or> (\<exists>e'. json_encode (VDict (first_result vals diags profile)) = Inl e'
             \<and> encode_result json_encode exc_info_of repr_of vals diags profile =
                 json_encode (VDict (second_result repr_of e' (exc_info_of e')
                                (first_result vals diags profile)))))"
proof (intro conjI)
  let ?es = "map (\<lambda>val. VDict (filter (\<lambda>(k, v). v \<noteq> VNone) val)) vals"
  have 1: "map_of (first_result vals diags profile) ''values'' = Some (VList ?es)"
    by (rule first_result_values)
  have 2: "length ?es = length vals" by simp
  have 3: "\<forall>i<length vals. \<exists>d. ?es ! i = VDict d
            \<and> set d = {(k, v). (k, v) \<in> set (vals ! i) \<and> v \<noteq> VNone}
            \<and> VNone \<notin> snd ` set d"
    by auto
  from 1 2 3 have "map_of (first_result vals diags profile) ''values'' = Some (VList ?es)
      \<and> length ?es = length vals
      \<and> (\<forall>i<length vals. \<exists>d. ?es ! i = VDict d
            \<and> set d = {(k, v). (k, v) \<in> set (vals ! i) \<and> v \<noteq> VNone}
            \<and> VNone \<notin> snd ` set d)"
    by (intro conjI)
  then show "\<exists>es. map_of (first_result vals diags profile) ''values'' = Some (VList es)
      \<and> length es = length vals
      \<and> (\<forall>i<length vals. \<exists>d. es ! i = VDict d
            \<and> set d = {(k, v). (k, v) \<in> set (vals ! i) \<and> v \<noteq> VNone}
            \<and> VNone \<notin> snd ` set d)"
    by (rule exI)
  show "map_of (second_result repr_of e info (first_result vals diags profile)) ''values'' = Some (VList [])"
    by (rule second_result_values)
  show "encode_result json_encode exc_info_of repr_of vals diags profile =
         json_encode (VDict (first_result vals diags profile))
       \<or> (\<exists>e'. json_encode (VDict (first_result vals diags profile)) = Inl e'
             \<and> encode_result json_encode exc_info_of repr_of vals diags profile =
                 json_encode (VDict (second_result repr_of e' (exc_info_of e')
                                (first_result vals diags profile))))"
    by (cases "json_encode (VDict (first_result vals diags profile))")
       (simp_all add: encode_result_def Let_def)
qed

theorem encode_result_drops_none_witness:
  "first_result
     [[(''buck.type'', VStr ''genrule''), (''name'', VStr ''a''), (''out'', VNone)],
      [(''__includes'', VList [VStr ''BUCK''])]] [] None =
   [(''values'',
     VList [VDict [(''buck.type'', VStr ''genrule''), (''name'', VStr ''a'')],
            VDict [(''__includes'', VList [VStr ''BUCK''])]])]
   \<and> (\<exists>es. map_of (first_result
          [[(''buck.type'', VStr ''genrule''), (''name'', VStr ''a''), (''out'', VNone)],
           [(''__includes'', VList [VStr ''BUCK''])]] [] None) ''values'' = Some (VList es)
        \<and> (\<exists>d. es ! 0 = VDict d \<and> VNone \<notin> snd ` set d)
        \<and> (\<exists>d. es ! 1 = VDict d \<and> VNone \<notin> snd ` set d))"
proof -
  let ?vals = "[[(''buck.type'', VStr ''genrule''), (''name'', VStr ''a''), (''out'', VNone)],
      [(''__includes'', VList [VStr ''BUCK''])]]"
  from encode_result_drops_none [of ?vals "[]" None]
  obtain es where es: "map_of (first_result ?vals [] None) ''values'' = Some (VList es)"
    and all: "\<forall>i<length ?vals. \<exists>d. es ! i = VDict d
            \<and> set d = {(k, v). (k, v) \<in> set (?vals ! i) \<and> v \<noteq> VNone}
            \<and> VNone \<notin> snd ` set d"
    by blast
  have "(0::nat) < length ?vals" and "(1::nat) < length ?vals" by simp_all
  with all have "\<exists>d. es ! 0 = VDict d \<and> VNone \<notin> snd ` set d"
    and "\<exists>d. es ! 1 = VDict d \<and> VNone \<notin> snd ` set d"
    by blast+
  moreover have "first_result ?vals [] None =
   [(''values'',
     VList [VDict [(''buck.type'', VStr ''genrule''), (''name'', VStr ''a'')],
            VDict [(''__includes'', VList [VStr ''BUCK''])]])]"
    by (simp add: first_result_def)
  ultimately show ?thesis using es by blast
qed

end
